theory Spec2Isabelle
  imports Main
begin

section \<open>The WorkMail organization resource\<close>

text \<open>
  A shallow embedding of \<^verbatim>\<open>internal/service/workmail/organization.go\<close>: the resource's
  schema, its Create, Read and Delete operations, its two waiters and its finder.
  The remote service is a parameter: a client whose replies are given.
\<close>

subsection \<open>Remote client\<close>

text \<open>Errors of the service client. \<^verbatim>\<open>errs.IsA[*awstypes.ResourceNotFoundException]\<close> is the
  test for the first constructor.\<close>

datatype api_error = ResourceNotFoundException | OperationError string

datatype CreateOrganizationOutput =
  CreateOrganizationOutput (CreatedOrganizationId: "string option")

record DescribeOrganizationOutput =
  OrganizationId :: "string option"
  State :: "string option"
  OrganizationAlias :: "string option"
  OrganizationARN :: "string option"

type_synonym Duration = int

definition Minute :: Duration where
  "Minute = 60 * 1000000000"

text \<open>
  The client. \<open>DescribeOrganization c oid k\<close> is the reply to the \<open>k\<close>-th DescribeOrganization
  call for \<open>oid\<close> within one operation (calls are numbered from 0), so that a remote whose state
  changes between polls is a function of \<open>k\<close>. A reply is \<open>Inl err\<close>, or \<open>Inr out\<close> where
  \<open>out = None\<close> is a nil output with a nil error.
\<close>

record Client =
  CreateOrganization :: "api_error + CreateOrganizationOutput option"
  DescribeOrganization :: "string \<Rightarrow> nat \<Rightarrow> api_error + DescribeOrganizationOutput option"
  DeleteOrganization :: "string option \<Rightarrow> api_error option"

subsection \<open>Errors\<close>

text \<open>
  The error values the resource handles: a client error, \<^verbatim>\<open>retry.NotFoundError\<close>
  (\<^verbatim>\<open>LastError\<close>, \<^verbatim>\<open>Retries\<close>), the empty-result error of tfresource,
  \<^verbatim>\<open>errors.New("empty output")\<close>, and the poller's \<^verbatim>\<open>UnexpectedStateError\<close>
  (\<^verbatim>\<open>State\<close>, \<^verbatim>\<open>ExpectedState\<close>) and \<^verbatim>\<open>TimeoutError\<close> (\<^verbatim>\<open>LastState\<close>,
  \<^verbatim>\<open>Timeout\<close>, \<^verbatim>\<open>ExpectedState\<close>). \<^verbatim>\<open>smarterr.NewError\<close> wraps an error without
  changing what it is (and keeps nil), so it is the identity here.
\<close>

datatype error =
    ClientError api_error
  | NotFoundError "api_error option" nat
  | EmptyResultError
  | EmptyOutput
  | UnexpectedStateError string "string list"
  | TimeoutError string Duration "string list"

text \<open>Modelled from the spec: \<^verbatim>\<open>tfresource.NotFound\<close> (internal/tfresource is not part of
  the source files). The spec's taxonomy has NotFound for an absent remote entity and counts
  EmptyResult as fatal; so the test holds of \<^verbatim>\<open>retry.NotFoundError\<close> only.\<close>

fun NotFound :: "error \<Rightarrow> bool" where
  "NotFound (NotFoundError _ _) = True"
| "NotFound _ = False"

definition ToString :: "string option \<Rightarrow> string" where
  "ToString p = (case p of None \<Rightarrow> [] | Some s \<Rightarrow> s)"

subsection \<open>Finder and status function\<close>

definition findOrganizationByID ::
  "Client \<Rightarrow> string \<Rightarrow> nat \<Rightarrow> error + DescribeOrganizationOutput" where
  "findOrganizationByID conn oid k =
     (case DescribeOrganization conn oid k of
        Inl err \<Rightarrow>
          (if err = ResourceNotFoundException then Inl (NotFoundError (Some err) 0)
           else Inl (ClientError err))
      | Inr out \<Rightarrow>
          (case out of
             None \<Rightarrow> Inl EmptyResultError
           | Some out' \<Rightarrow>
               (if OrganizationId out' = None then Inl EmptyResultError else Inr out')))"

text \<open>
  The dynamic values a refresh function can hand to the poller as \<^verbatim>\<open>any\<close>: nil, a
  \<^verbatim>\<open>*workmail.DescribeOrganizationOutput\<close>, or a \<^verbatim>\<open>*workmail.Organization\<close>, the type
  \<^verbatim>\<open>waitOrganizationDeleted\<close> asserts. A type assertion is a match on the constructor.
\<close>

datatype Organization = Organization

datatype any_value =
    nil
  | DescribeOrganizationOutputPtr DescribeOrganizationOutput
  | OrganizationPtr Organization

type_synonym refresh_result = "any_value \<times> string \<times> error option"

definition statusOrganization :: "Client \<Rightarrow> string \<Rightarrow> nat \<Rightarrow> refresh_result" where
  "statusOrganization conn oid k =
     (case findOrganizationByID conn oid k of
        Inl err \<Rightarrow> (if NotFound err then (nil, [], None) else (nil, [], Some err))
      | Inr out \<Rightarrow> (DescribeOrganizationOutputPtr out, ToString (State out), None))"

subsection \<open>The poller\<close>

text \<open>
  \<^verbatim>\<open>retry.StateChangeConf\<close> and its \<^verbatim>\<open>WaitForStateContext\<close> belong to the library
  terraform-plugin-sdk/v2 (helper/retry) that the resource imports; the definitions below follow
  that library's refresh loop. \<open>Refresh conf k\<close> is the result of the \<open>k\<close>-th call of the
  refresh function.

  Time is abstracted by \<open>pollsWithin\<close> of the context: \<open>pollsWithin ctx d\<close> is the number of
  refresh results the loop receives before a timeout of duration \<open>d\<close> (with its grace period)
  cuts it off; it stands for the backoff schedule and the latency of the calls. Cancellation of
  the context is not modelled.
\<close>

record Context =
  pollsWithin :: "Duration \<Rightarrow> nat"

record StateChangeConf =
  Pending :: "string list"
  Target :: "string list"
  Refresh :: "nat \<Rightarrow> refresh_result"
  Timeout :: Duration
  NotFoundChecks :: nat
  ContinuousTargetOccurence :: nat

text \<open>The loop over \<^verbatim>\<open>conf.Target\<close>: every entry equal to the current state counts one
  occurrence, and the loop returns (third component) as soon as the count equals
  \<^verbatim>\<open>ContinuousTargetOccurence\<close>. The result is (found, targetOccurence, done).\<close>

fun scanTarget :: "nat \<Rightarrow> string \<Rightarrow> string list \<Rightarrow> bool \<Rightarrow> nat \<Rightarrow> bool \<times> nat \<times> bool" where
  "scanTarget cto currentState [] found targetOccurence = (found, targetOccurence, False)"
| "scanTarget cto currentState (allowed # rest) found targetOccurence =
     (if currentState = allowed then
        (if cto = Suc targetOccurence then (True, Suc targetOccurence, True)
         else scanTarget cto currentState rest True (Suc targetOccurence))
      else scanTarget cto currentState rest found targetOccurence)"

text \<open>
  One round of the refresh loop after the call of \<^verbatim>\<open>conf.Refresh\<close>: either the loop
  goes on with new counters (notfoundTick, targetOccurence), or the wait returns a result and
  an error. In the library's order:
  \<^item> a non-nil error of the refresh function ends the loop with that result and error;
  \<^item> a nil result when \<^verbatim>\<open>conf.Target\<close> is empty counts one target occurrence (the wait
    for the absence of a thing);
  \<^item> any other nil result increments \<^verbatim>\<open>notfoundTick\<close>, and ends the loop with a
    \<^verbatim>\<open>NotFoundError\<close> once it exceeds \<^verbatim>\<open>conf.NotFoundChecks\<close>; the target count is not
    touched;
  \<^item> a non-nil result resets \<^verbatim>\<open>notfoundTick\<close>; a state in \<^verbatim>\<open>conf.Target\<close> counts a target
    occurrence and ends the loop with success when the count reaches
    \<^verbatim>\<open>ContinuousTargetOccurence\<close>; a state in \<^verbatim>\<open>conf.Pending\<close> resets the target count; a
    state in neither list (with a non-empty pending list) ends the loop with an
    \<^verbatim>\<open>UnexpectedStateError\<close>.
\<close>

datatype round = Continue nat nat | Return any_value "error option"

definition refreshRound :: "StateChangeConf \<Rightarrow> nat \<Rightarrow> nat \<Rightarrow> refresh_result \<Rightarrow> round" where
  "refreshRound conf notfoundTick targetOccurence r =
     (case r of (res, currentState, err) \<Rightarrow>
        if err \<noteq> None then Return res err
        else if res = nil \<and> Target conf = [] then
          (if ContinuousTargetOccurence conf = Suc targetOccurence then Return res None
           else Continue notfoundTick (Suc targetOccurence))
        else if res = nil then
          (if Suc notfoundTick > NotFoundChecks conf
           then Return res (Some (NotFoundError None (Suc notfoundTick)))
           else Continue (Suc notfoundTick) targetOccurence)
        else
          (case scanTarget (ContinuousTargetOccurence conf) currentState (Target conf)
                  False targetOccurence of
             (found, occ, done) \<Rightarrow>
               if done then Return res None
               else if currentState \<in> set (Pending conf) then Continue 0 0
               else if \<not> found \<and> Pending conf \<noteq> []
               then Return res (Some (UnexpectedStateError currentState (Target conf)))
               else Continue 0 occ))"

text \<open>
  The refresh loop: \<open>k\<close> is the number of refresh calls made so far, \<open>lastState\<close> the state of
  the last result, and the last argument the number of results still to come before the
  timeout. When none is left the wait returns nil and a \<^verbatim>\<open>TimeoutError\<close>. The third
  component of the outcome is the number of refresh calls made.
\<close>

fun refreshLoop ::
  "StateChangeConf \<Rightarrow> nat \<Rightarrow> nat \<Rightarrow> string \<Rightarrow> nat \<Rightarrow> nat \<Rightarrow> any_value \<times> error option \<times> nat" where
  "refreshLoop conf notfoundTick targetOccurence lastState k 0 =
     (nil, Some (TimeoutError lastState (Timeout conf) (Target conf)), k)"
| "refreshLoop conf notfoundTick targetOccurence lastState k (Suc n) =
     (case refreshRound conf notfoundTick targetOccurence (Refresh conf k) of
        Return res err \<Rightarrow> (res, err, Suc k)
      | Continue notfoundTick' targetOccurence' \<Rightarrow>
          refreshLoop conf notfoundTick' targetOccurence' (fst (snd (Refresh conf k))) (Suc k) n)"

text \<open>\<^verbatim>\<open>WaitForStateContext\<close>: the defaults for the two counters, then the loop.\<close>

definition WaitForStateContext ::
  "Context \<Rightarrow> StateChangeConf \<Rightarrow> any_value \<times> error option \<times> nat" where
  "WaitForStateContext ctx conf =
     (let conf1 = (if NotFoundChecks conf = 0 then conf\<lparr>NotFoundChecks := 20\<rparr> else conf);
          conf2 = (if ContinuousTargetOccurence conf1 = 0
                   then conf1\<lparr>ContinuousTargetOccurence := 1\<rparr> else conf1)
      in refreshLoop conf2 0 0 [] 0 (pollsWithin ctx (Timeout conf2)))"

subsection \<open>Waiters\<close>

definition statusCreating :: string where "statusCreating = ''Creating''"
definition statusDeleting :: string where "statusDeleting = ''Deleting''"
definition statusActive :: string where "statusActive = ''Active''"
definition statusDeleted :: string where "statusDeleted = ''Deleted''"

definition createdConf :: "Client \<Rightarrow> string \<Rightarrow> Duration \<Rightarrow> StateChangeConf" where
  "createdConf conn oid timeout =
     \<lparr>Pending = [statusCreating], Target = [statusActive],
      Refresh = statusOrganization conn oid, Timeout = timeout,
      NotFoundChecks = 20, ContinuousTargetOccurence = 2\<rparr>"

definition deletedConf :: "Client \<Rightarrow> string \<Rightarrow> Duration \<Rightarrow> StateChangeConf" where
  "deletedConf conn oid timeout =
     \<lparr>Pending = [statusDeleting, statusActive], Target = [statusDeleted],
      Refresh = statusOrganization conn oid, Timeout = timeout,
      NotFoundChecks = 0, ContinuousTargetOccurence = 0\<rparr>"

text \<open>The configuration of the deletion wait once \<open>WaitForStateContext\<close> has put in its
  defaults for the two counters the waiter leaves at zero.\<close>

definition deletedConf' :: "Client \<Rightarrow> string \<Rightarrow> Duration \<Rightarrow> StateChangeConf" where
  "deletedConf' conn oid timeout =
     (deletedConf conn oid timeout)\<lparr>NotFoundChecks := 20, ContinuousTargetOccurence := 1\<rparr>"

text \<open>Both waiters return the asserted output, the error, and the number of refresh calls.\<close>

definition waitOrganizationCreated ::
  "Context \<Rightarrow> Client \<Rightarrow> string \<Rightarrow> Duration \<Rightarrow> DescribeOrganizationOutput option \<times> error option \<times> nat" where
  "waitOrganizationCreated ctx conn oid timeout =
     (case WaitForStateContext ctx (createdConf conn oid timeout) of
        (outputRaw, err, polls) \<Rightarrow>
          (case outputRaw of
             DescribeOrganizationOutputPtr out \<Rightarrow> (Some out, err, polls)
           | _ \<Rightarrow> (None, err, polls)))"

definition waitOrganizationDeleted ::
  "Context \<Rightarrow> Client \<Rightarrow> string \<Rightarrow> Duration \<Rightarrow> Organization option \<times> error option \<times> nat" where
  "waitOrganizationDeleted ctx conn oid timeout =
     (case WaitForStateContext ctx (deletedConf conn oid timeout) of
        (outputRaw, err, polls) \<Rightarrow>
          (case outputRaw of
             OrganizationPtr out \<Rightarrow> (Some out, err, polls)
           | _ \<Rightarrow> (None, err, polls)))"

subsection \<open>Schema\<close>

datatype plan_modifier = RequiresReplace | UseStateForUnknown

record StringAttribute =
  Required :: bool
  Optional :: bool
  Computed :: bool
  PlanModifiers :: "plan_modifier list"

record timeouts_Opts =
  CreateOpt :: bool
  ReadOpt :: bool
  UpdateOpt :: bool
  DeleteOpt :: bool

text \<open>\<^verbatim>\<open>timeouts.Attributes\<close> of terraform-plugin-framework-timeouts: the nested timeouts
  attribute has one optional string attribute for each phase switched on in the options; the
  value is the list of their names.\<close>

definition timeouts_Attributes :: "timeouts_Opts \<Rightarrow> string list" where
  "timeouts_Attributes opts =
     (if CreateOpt opts then [''create''] else []) @
     (if ReadOpt opts then [''read''] else []) @
     (if UpdateOpt opts then [''update''] else []) @
     (if DeleteOpt opts then [''delete''] else [])"

datatype attribute = StringAttr StringAttribute | TimeoutsAttr "string list"

text \<open>Modelled from the spec: \<^verbatim>\<open>framework.ARNAttributeComputedOnly\<close> and
  \<^verbatim>\<open>framework.IDAttribute\<close> (internal/framework is not part of the source files); the spec
  lists \<open>id\<close> and \<open>arn\<close> as computed fields.\<close>

definition ARNAttributeComputedOnly :: attribute where
  "ARNAttributeComputedOnly =
     StringAttr \<lparr>Required = False, Optional = False, Computed = True,
                 PlanModifiers = [UseStateForUnknown]\<rparr>"

definition IDAttribute :: attribute where
  "IDAttribute =
     StringAttr \<lparr>Required = False, Optional = False, Computed = True,
                 PlanModifiers = [UseStateForUnknown]\<rparr>"

text \<open>The attribute names are those of the \<^verbatim>\<open>tfsdk\<close> tags of the model struct.\<close>

definition Schema :: "(string \<times> attribute) list" where
  "Schema =
     [(''arn'', ARNAttributeComputedOnly),
      (''description'',
         StringAttr \<lparr>Required = False, Optional = True, Computed = False, PlanModifiers = []\<rparr>),
      (''id'', IDAttribute),
      (''alias'',
         StringAttr \<lparr>Required = True, Optional = False, Computed = False,
                     PlanModifiers = [RequiresReplace]\<rparr>),
      (''timeouts'',
         TimeoutsAttr (timeouts_Attributes
           \<lparr>CreateOpt = True, ReadOpt = False, UpdateOpt = False, DeleteOpt = False\<rparr>))]"

text \<open>The timeouts a configuration may set: the names under the schema's timeouts attribute.\<close>

definition configurableTimeouts :: "(string \<times> attribute) list \<Rightarrow> string list" where
  "configurableTimeouts sch =
     (case map_of sch ''timeouts'' of Some (TimeoutsAttr names) \<Rightarrow> names | _ \<Rightarrow> [])"

subsection \<open>Resource and model\<close>

text \<open>\<open>Timeouts\<close> is the \<^verbatim>\<open>timeouts.Value\<close> object: the durations configured, by phase name.
  A value conforms to a schema when it has no attribute the schema does not offer.\<close>

record resourceOrganizationModel =
  ARN :: "string option"
  Description :: "string option"
  ID :: "string option"
  Alias :: "string option"
  Timeouts :: "(string \<times> Duration) list"

definition timeoutsConform :: "(string \<times> attribute) list \<Rightarrow> (string \<times> Duration) list \<Rightarrow> bool" where
  "timeoutsConform sch ts = list_all (\<lambda>(name, d). name \<in> set (configurableTimeouts sch)) ts"

record resourceOrganization =
  defaultCreateTimeout :: Duration
  defaultUpdateTimeout :: Duration
  defaultDeleteTimeout :: Duration

definition newResourceOrganization :: resourceOrganization where
  "newResourceOrganization =
     \<lparr>defaultCreateTimeout = 10 * Minute, defaultUpdateTimeout = 10 * Minute,
      defaultDeleteTimeout = 10 * Minute\<rparr>"

text \<open>Modelled from the spec: \<^verbatim>\<open>CreateTimeout\<close> and \<^verbatim>\<open>DeleteTimeout\<close> of
  \<^verbatim>\<open>framework.WithTimeouts\<close> (internal/framework is not part of the source files): the
  duration configured for the phase, and the resource's default when none is configured.\<close>

definition CreateTimeout :: "resourceOrganization \<Rightarrow> (string \<times> Duration) list \<Rightarrow> Duration" where
  "CreateTimeout r ts =
     (case map_of ts ''create'' of Some d \<Rightarrow> d | None \<Rightarrow> defaultCreateTimeout r)"

definition DeleteTimeout :: "resourceOrganization \<Rightarrow> (string \<times> Duration) list \<Rightarrow> Duration" where
  "DeleteTimeout r ts =
     (case map_of ts ''delete'' of Some d \<Rightarrow> d | None \<Rightarrow> defaultDeleteTimeout r)"

subsection \<open>Diagnostics and responses\<close>

text \<open>A diagnostic is an error or a warning; \<^verbatim>\<open>smerr.AddError\<close> appends an error built from
  an error value, \<^verbatim>\<open>fwdiag.NewResourceNotFoundWarningDiagnostic\<close> builds a warning. The
  diagnostics of the plugin framework's own calls carry a text.\<close>

datatype diagnostic =
    ErrorDiagnostic error
  | ResourceNotFoundWarningDiagnostic error
  | FrameworkError string
  | FrameworkWarning string

fun isError :: "diagnostic \<Rightarrow> bool" where
  "isError (ErrorDiagnostic _) = True"
| "isError (FrameworkError _) = True"
| "isError _ = False"

definition HasError :: "diagnostic list \<Rightarrow> bool" where
  "HasError diags = list_ex isError diags"

text \<open>What an operation did to \<^verbatim>\<open>resp.State\<close>: nothing, \<^verbatim>\<open>Set\<close> with a model, or
  \<^verbatim>\<open>RemoveResource\<close>.\<close>

datatype state_call = NoStateCall | Set resourceOrganizationModel | RemoveResource

text \<open>The response of an operation: its diagnostics, its call on the state, and the number
  of DescribeOrganization calls it made.\<close>

record Response =
  Diagnostics :: "diagnostic list"
  StateCall :: state_call
  DescribeCalls :: nat

text \<open>
  The calls into the plugin framework, as parameters: the diagnostics of reading the request's
  plan or state (\<^verbatim>\<open>req.Plan.Get\<close>, \<^verbatim>\<open>req.State.Get\<close>), of \<^verbatim>\<open>flex.Expand\<close>, the two
  \<^verbatim>\<open>flex.Flatten\<close> conversions with the model they fill in, and the diagnostics of
  \<^verbatim>\<open>resp.State.Set\<close>.
\<close>

record Framework =
  GetDiags :: "diagnostic list"
  ExpandDiags :: "diagnostic list"
  FlattenCreate ::
    "CreateOrganizationOutput \<Rightarrow> resourceOrganizationModel \<Rightarrow> diagnostic list \<times> resourceOrganizationModel"
  FlattenDescribe ::
    "DescribeOrganizationOutput \<Rightarrow> resourceOrganizationModel \<Rightarrow> diagnostic list \<times> resourceOrganizationModel"
  SetDiags :: "diagnostic list"

subsection \<open>Create, Read, Delete\<close>

definition Create ::
  "resourceOrganization \<Rightarrow> Context \<Rightarrow> Client \<Rightarrow> Framework \<Rightarrow> resourceOrganizationModel \<Rightarrow> Response" where
  "Create r ctx conn fw plan =
     (let diags = GetDiags fw in
      if HasError diags then \<lparr>Diagnostics = diags, StateCall = NoStateCall, DescribeCalls = 0\<rparr>
      else
        let diags = diags @ ExpandDiags fw in
        if HasError diags then \<lparr>Diagnostics = diags, StateCall = NoStateCall, DescribeCalls = 0\<rparr>
        else
          (case CreateOrganization conn of
             Inl err \<Rightarrow>
               \<lparr>Diagnostics = diags @ [ErrorDiagnostic (ClientError err)],
                StateCall = NoStateCall, DescribeCalls = 0\<rparr>
           | Inr None \<Rightarrow>
               \<lparr>Diagnostics = diags @ [ErrorDiagnostic EmptyOutput],
                StateCall = NoStateCall, DescribeCalls = 0\<rparr>
           | Inr (Some out) \<Rightarrow>
               if CreatedOrganizationId out = None then
                 \<lparr>Diagnostics = diags @ [ErrorDiagnostic EmptyOutput],
                  StateCall = NoStateCall, DescribeCalls = 0\<rparr>
               else
                 (case FlattenCreate fw out plan of
                    (fdiags, plan') \<Rightarrow>
                      let diags = diags @ fdiags in
                      if HasError diags then
                        \<lparr>Diagnostics = diags, StateCall = NoStateCall, DescribeCalls = 0\<rparr>
                      else
                        let createTimeout = CreateTimeout r (Timeouts plan') in
                        (case waitOrganizationCreated ctx conn (ToString (ID plan')) createTimeout of
                           (_, Some err, polls) \<Rightarrow>
                             \<lparr>Diagnostics = diags @ [ErrorDiagnostic err],
                              StateCall = NoStateCall, DescribeCalls = polls\<rparr>
                         | (_, None, polls) \<Rightarrow>
                             \<lparr>Diagnostics = diags @ SetDiags fw,
                              StateCall = Set plan', DescribeCalls = polls\<rparr>))))"

definition Read ::
  "resourceOrganization \<Rightarrow> Context \<Rightarrow> Client \<Rightarrow> Framework \<Rightarrow> resourceOrganizationModel \<Rightarrow> Response" where
  "Read r ctx conn fw state =
     (let diags = GetDiags fw in
      if HasError diags then \<lparr>Diagnostics = diags, StateCall = NoStateCall, DescribeCalls = 0\<rparr>
      else
        (case findOrganizationByID conn (ToString (ID state)) 0 of
           Inl err \<Rightarrow>
             if NotFound err then
               \<lparr>Diagnostics = diags @ [ResourceNotFoundWarningDiagnostic err],
                StateCall = RemoveResource, DescribeCalls = 1\<rparr>
             else
               \<lparr>Diagnostics = diags @ [ErrorDiagnostic err],
                StateCall = NoStateCall, DescribeCalls = 1\<rparr>
         | Inr out \<Rightarrow>
             (case FlattenDescribe fw out state of
                (fdiags, state') \<Rightarrow>
                  let diags = diags @ fdiags in
                  if HasError diags then
                    \<lparr>Diagnostics = diags, StateCall = NoStateCall, DescribeCalls = 1\<rparr>
                  else
                    \<lparr>Diagnostics = diags @ SetDiags fw,
                     StateCall = Set state', DescribeCalls = 1\<rparr>)))"

definition Delete ::
  "resourceOrganization \<Rightarrow> Context \<Rightarrow> Client \<Rightarrow> Framework \<Rightarrow> resourceOrganizationModel \<Rightarrow> Response" where
  "Delete r ctx conn fw state =
     (let diags = GetDiags fw in
      if HasError diags then \<lparr>Diagnostics = diags, StateCall = NoStateCall, DescribeCalls = 0\<rparr>
      else
        (case DeleteOrganization conn (ID state) of
           Some err \<Rightarrow>
             if err = ResourceNotFoundException then
               \<lparr>Diagnostics = diags, StateCall = NoStateCall, DescribeCalls = 0\<rparr>
             else
               \<lparr>Diagnostics = diags @ [ErrorDiagnostic (ClientError err)],
                StateCall = NoStateCall, DescribeCalls = 0\<rparr>
         | None \<Rightarrow>
             let deleteTimeout = DeleteTimeout r (Timeouts state) in
             (case waitOrganizationDeleted ctx conn (ToString (ID state)) deleteTimeout of
                (_, Some err, polls) \<Rightarrow>
                  \<lparr>Diagnostics = diags @ [ErrorDiagnostic err],
                   StateCall = NoStateCall, DescribeCalls = polls\<rparr>
              | (_, None, polls) \<Rightarrow>
                  \<lparr>Diagnostics = diags, StateCall = NoStateCall, DescribeCalls = polls\<rparr>)))"

subsection \<open>Planning a change\<close>

text \<open>
  \<^verbatim>\<open>stringplanmodifier.RequiresReplace\<close> of the plugin framework, for a resource that
  exists: when the planned value of an attribute carrying the modifier differs from the value
  in the state, the resource is replaced (destroyed, then created); a change of other
  configurable attributes only is an update in place.
\<close>

datatype resource_action = ResourceActionNoop | ResourceActionUpdate | ResourceActionReplace

definition attributeValue :: "resourceOrganizationModel \<Rightarrow> string \<Rightarrow> string option" where
  "attributeValue m name =
     (if name = ''arn'' then ARN m
      else if name = ''description'' then Description m
      else if name = ''id'' then ID m
      else if name = ''alias'' then Alias m
      else None)"

fun configurable :: "attribute \<Rightarrow> bool" where
  "configurable (StringAttr a) = (Required a \<or> Optional a)"
| "configurable (TimeoutsAttr _) = False"

fun requiresReplace :: "attribute \<Rightarrow> bool" where
  "requiresReplace (StringAttr a) = (RequiresReplace \<in> set (PlanModifiers a))"
| "requiresReplace (TimeoutsAttr _) = False"

definition changedAttributes ::
  "(string \<times> attribute) list \<Rightarrow> resourceOrganizationModel \<Rightarrow> resourceOrganizationModel \<Rightarrow> (string \<times> attribute) list" where
  "changedAttributes sch state plan =
     filter (\<lambda>(name, a). configurable a \<and> attributeValue state name \<noteq> attributeValue plan name) sch"

definition planAction ::
  "(string \<times> attribute) list \<Rightarrow> resourceOrganizationModel \<Rightarrow> resourceOrganizationModel \<Rightarrow> resource_action" where
  "planAction sch state plan =
     (let changed = changedAttributes sch state plan in
      if list_ex (\<lambda>(name, a). requiresReplace a) changed then ResourceActionReplace
      else if changed \<noteq> [] then ResourceActionUpdate
      else ResourceActionNoop)"

subsection \<open>Vocabulary of the properties\<close>

text \<open>The \<open>k\<close>-th poll observes status \<open>s\<close> when the finder returns an output whose state
  is \<open>s\<close>; it reports not-found when the finder returns an error that \<open>NotFound\<close>
  accepts.\<close>

definition observes :: "Client \<Rightarrow> string \<Rightarrow> nat \<Rightarrow> string \<Rightarrow> bool" where
  "observes conn oid k s =
     (case findOrganizationByID conn oid k of
        Inr out \<Rightarrow> ToString (State out) = s
      | Inl _ \<Rightarrow> False)"

definition reportsNotFound :: "Client \<Rightarrow> string \<Rightarrow> nat \<Rightarrow> bool" where
  "reportsNotFound conn oid k =
     (case findOrganizationByID conn oid k of
        Inl e \<Rightarrow> NotFound e
      | Inr _ \<Rightarrow> False)"

text \<open>
  The history of the polls, read from the remote alone. \<open>notFoundRun conn oid k\<close> is the
  number of consecutive polls right before poll \<open>k\<close> that report not-found;
  \<open>activeRun conn oid k\<close> counts the Active observations before poll \<open>k\<close> since the last
  poll that neither observed Active nor reported not-found.

  Poll \<open>k\<close> ends the creation wait when the finder fails with an error that is not a not-found
  condition, when it reports not-found after 20 consecutive not-found polls, when it observes
  Active after an Active observation that still counts, or when it observes a state that is
  neither Active nor Creating. The wait is undecided before poll \<open>k\<close> when no earlier poll
  ends it.
\<close>

fun notFoundRun :: "Client \<Rightarrow> string \<Rightarrow> nat \<Rightarrow> nat" where
  "notFoundRun conn oid 0 = 0"
| "notFoundRun conn oid (Suc k) =
     (if reportsNotFound conn oid k then Suc (notFoundRun conn oid k) else 0)"

fun activeRun :: "Client \<Rightarrow> string \<Rightarrow> nat \<Rightarrow> nat" where
  "activeRun conn oid 0 = 0"
| "activeRun conn oid (Suc k) =
     (if observes conn oid k statusActive then Suc (activeRun conn oid k)
      else if reportsNotFound conn oid k then activeRun conn oid k
      else 0)"

definition endsWait :: "Client \<Rightarrow> string \<Rightarrow> nat \<Rightarrow> bool" where
  "endsWait conn oid k =
     (case findOrganizationByID conn oid k of
        Inl e \<Rightarrow> \<not> NotFound e \<or> 20 \<le> notFoundRun conn oid k
      | Inr out \<Rightarrow>
          if ToString (State out) = statusActive then 1 \<le> activeRun conn oid k
          else ToString (State out) \<noteq> statusCreating)"

definition undecided :: "Client \<Rightarrow> string \<Rightarrow> nat \<Rightarrow> bool" where
  "undecided conn oid k = list_all (\<lambda>i. \<not> endsWait conn oid i) [0..<k]"

fun isTimeoutError :: "error \<Rightarrow> bool" where
  "isTimeoutError (TimeoutError _ _ _) = True"
| "isTimeoutError _ = False"

subsection \<open>Concrete remotes\<close>

text \<open>A remote that answers the successive DescribeOrganization calls from a list of
  replies and reports not-found once the list is used up; an organization in a given state;
  a context that lets a wait receive \<open>n\<close> refresh results; a framework whose calls raise
  no diagnostics.\<close>

definition describedOrganization :: "string \<Rightarrow> DescribeOrganizationOutput" where
  "describedOrganization s =
     \<lparr>OrganizationId = Some ''m-1'', State = Some s,
      OrganizationAlias = Some ''example'', OrganizationARN = None\<rparr>"

definition organizationIn :: "string \<Rightarrow> api_error + DescribeOrganizationOutput option" where
  "organizationIn s = Inr (Some (describedOrganization s))"

definition scriptedClient :: "(api_error + DescribeOrganizationOutput option) list \<Rightarrow> Client" where
  "scriptedClient replies =
     \<lparr>CreateOrganization = Inr (Some (CreateOrganizationOutput (Some ''m-1''))),
      DescribeOrganization =
        (\<lambda>oid k. if k < length replies then replies ! k else Inl ResourceNotFoundException),
      DeleteOrganization = (\<lambda>oid. None)\<rparr>"

definition goneClient :: Client where
  "goneClient =
     \<lparr>CreateOrganization = Inr (Some (CreateOrganizationOutput (Some ''m-1''))),
      DescribeOrganization = (\<lambda>oid k. Inl ResourceNotFoundException),
      DeleteOrganization = (\<lambda>oid. Some ResourceNotFoundException)\<rparr>"

definition flickerClient :: Client where
  "flickerClient =
     scriptedClient [organizationIn statusActive, Inl ResourceNotFoundException,
                     organizationIn statusActive]"

definition debounceClient :: Client where
  "debounceClient =
     scriptedClient [organizationIn statusCreating, organizationIn statusActive,
                     organizationIn statusCreating, organizationIn statusActive,
                     organizationIn statusActive]"

definition deletingClient :: Client where
  "deletingClient =
     scriptedClient [organizationIn statusActive, organizationIn statusDeleting,
                     organizationIn statusDeleted]"

definition pendingClient :: Client where
  "pendingClient =
     \<lparr>CreateOrganization = Inr (Some (CreateOrganizationOutput (Some ''m-1''))),
      DescribeOrganization = (\<lambda>oid k. organizationIn statusCreating),
      DeleteOrganization = (\<lambda>oid. None)\<rparr>"

definition lateClient :: Client where
  "lateClient =
     scriptedClient [Inl ResourceNotFoundException, Inl ResourceNotFoundException,
                     organizationIn statusActive, organizationIn statusActive]"

definition brokenClient :: Client where
  "brokenClient =
     scriptedClient [organizationIn statusCreating, Inl (OperationError ''throttled'')]"

definition creatingThenGoneClient :: Client where
  "creatingThenGoneClient = scriptedClient [organizationIn statusCreating]"

definition vanishedClient :: Client where
  "vanishedClient = scriptedClient []"

definition pollsAllowed :: "nat \<Rightarrow> Context" where
  "pollsAllowed n = \<lparr>pollsWithin = (\<lambda>d. n)\<rparr>"

definition quietFramework :: Framework where
  "quietFramework =
     \<lparr>GetDiags = [], ExpandDiags = [],
      FlattenCreate = (\<lambda>out m. ([], m\<lparr>ID := CreatedOrganizationId out\<rparr>)),
      FlattenDescribe = (\<lambda>out m. ([], m\<lparr>ID := OrganizationId out, Alias := OrganizationAlias out,
                                            ARN := OrganizationARN out\<rparr>)),
      SetDiags = []\<rparr>"

definition examplePlan :: resourceOrganizationModel where
  "examplePlan =
     \<lparr>ARN = None, Description = Some ''some description'', ID = None,
      Alias = Some ''example'', Timeouts = [(''create'', 5 * Minute)]\<rparr>"

definition exampleState :: resourceOrganizationModel where
  "exampleState =
     \<lparr>ARN = None, Description = Some ''some description'', ID = Some ''m-1'',
      Alias = Some ''example'', Timeouts = []\<rparr>"

section \<open>Properties\<close>

subsection \<open>The refresh loop\<close>

text \<open>Facts about the loop for every configuration: what a round returns, and that a round
  whose refresh result carries an error ends the wait with that error.\<close>

lemmas status_defs = statusCreating_def statusActive_def statusDeleting_def statusDeleted_def

lemma loop_Return:
  "refreshRound conf nf occ (Refresh conf k) = Return res err \<Longrightarrow>
     refreshLoop conf nf occ ls k (Suc m) = (res, err, Suc k)"
  by simp

lemma loop_Continue:
  "refreshRound conf nf occ (Refresh conf k) = Continue nf' occ' \<Longrightarrow>
     refreshLoop conf nf occ ls k (Suc m) =
       refreshLoop conf nf' occ' (fst (snd (Refresh conf k))) (Suc k) m"
  by simp

lemma round_result:
  "refreshRound conf nf occ r = Return res err \<Longrightarrow> res = fst r"
  by (auto simp: refreshRound_def split: prod.splits if_splits)

lemma round_error:
  "refreshRound conf nf occ (res, s, Some e) = Return res (Some e)"
  by (simp add: refreshRound_def)

lemma statusOrganization_shape:
  "fst (statusOrganization conn oid k) \<noteq> OrganizationPtr x"
  by (simp add: statusOrganization_def split: sum.splits)

lemma statusOrganization_error:
  "findOrganizationByID conn oid k = Inl e \<Longrightarrow> \<not> NotFound e \<Longrightarrow>
     statusOrganization conn oid k = (nil, [], Some e)"
  by (simp add: statusOrganization_def)

lemma loop_shape:
  "Refresh conf = statusOrganization conn oid \<Longrightarrow>
     fst (refreshLoop conf nf occ ls k m) \<noteq> OrganizationPtr x"
proof (induction m arbitrary: nf occ ls k)
  case 0
  then show ?case by simp
next
  case (Suc m)
  show ?case
  proof (cases "refreshRound conf nf occ (Refresh conf k)")
    case (Continue nf' occ')
    then show ?thesis using Suc by simp
  next
    case (Return res err)
    from round_result[OF this] have "res = fst (statusOrganization conn oid k)"
      using Suc.prems by simp
    with Return show ?thesis by (simp add: statusOrganization_shape)
  qed
qed

lemma loop_fatal:
  assumes "Refresh conf = statusOrganization conn oid"
    and "findOrganizationByID conn oid k = Inl e" and "\<not> NotFound e"
  shows "refreshLoop conf nf occ ls k0 m = (res, err, n) \<Longrightarrow> k0 \<le> k \<Longrightarrow> k < n \<Longrightarrow>
           res = nil \<and> err = Some e \<and> n = Suc k"
proof (induction m arbitrary: nf occ ls k0)
  case 0
  then show ?case by simp
next
  case (Suc m)
  show ?case
  proof (cases "k0 = k")
    case True
    have "refreshRound conf nf occ (Refresh conf k) = Return nil (Some e)"
      using assms by (simp add: statusOrganization_error round_error)
    with Suc.prems(1) True show ?thesis by simp
  next
    case False
    with Suc.prems have lt: "Suc k0 \<le> k" by simp
    show ?thesis
    proof (cases "refreshRound conf nf occ (Refresh conf k0)")
      case (Continue nf' occ')
      with Suc.prems(1) have
        "refreshLoop conf nf' occ' (fst (snd (Refresh conf k0))) (Suc k0) m = (res, err, n)"
        by simp
      from Suc.IH[OF this lt Suc.prems(3)] show ?thesis .
    next
      case (Return res' err')
      with Suc.prems(1) have "n = Suc k0" by simp
      with lt Suc.prems(3) show ?thesis by simp
    qed
  qed
qed

declare refreshLoop.simps(2) [simp del]

lemma observes_Inr:
  "observes conn oid k s \<Longrightarrow> \<exists>out. findOrganizationByID conn oid k = Inr out \<and> ToString (State out) = s"
  by (auto simp: observes_def split: sum.splits)

lemma reportsNotFound_Inl:
  "reportsNotFound conn oid k \<Longrightarrow> \<exists>e. findOrganizationByID conn oid k = Inl e \<and> NotFound e"
  by (auto simp: reportsNotFound_def split: sum.splits)

lemma observes_functional:
  "observes conn oid k s \<Longrightarrow> observes conn oid k s' \<Longrightarrow> s = s'"
  by (auto simp: observes_def split: sum.splits)

lemma observes_not_reportsNotFound:
  "observes conn oid k s \<Longrightarrow> \<not> reportsNotFound conn oid k"
  by (auto simp: observes_def reportsNotFound_def split: sum.splits)

subsection \<open>The creation wait\<close>

text \<open>One round of the creation wait, by cases on what the finder returns.\<close>

lemma WaitForStateContext_created:
  "WaitForStateContext ctx (createdConf conn oid t) =
     refreshLoop (createdConf conn oid t) 0 0 [] 0 (pollsWithin ctx t)"
  by (simp add: WaitForStateContext_def createdConf_def)

lemma Refresh_createdConf: "Refresh (createdConf conn oid t) = statusOrganization conn oid"
  by (simp add: createdConf_def)

lemma created_round:
  "refreshRound (createdConf conn oid t) nf occ (statusOrganization conn oid k) =
     (case findOrganizationByID conn oid k of
        Inl e \<Rightarrow>
          if NotFound e then
            (if 20 \<le> nf then Return nil (Some (NotFoundError None (Suc nf)))
             else Continue (Suc nf) occ)
          else Return nil (Some e)
      | Inr out \<Rightarrow>
          if ToString (State out) = statusActive then
            (if occ = 1 then Return (DescribeOrganizationOutputPtr out) None
             else Continue 0 (Suc occ))
          else if ToString (State out) = statusCreating then Continue 0 0
          else Return (DescribeOrganizationOutputPtr out)
                 (Some (UnexpectedStateError (ToString (State out)) [statusActive])))"
  by (auto simp: refreshRound_def createdConf_def statusOrganization_def status_defs
           split: sum.splits)

lemma created_step:
  "refreshLoop (createdConf conn oid t) nf occ ls k (Suc m) =
     (case findOrganizationByID conn oid k of
        Inl e \<Rightarrow>
          if NotFound e then
            (if 20 \<le> nf then (nil, Some (NotFoundError None (Suc nf)), Suc k)
             else refreshLoop (createdConf conn oid t) (Suc nf) occ [] (Suc k) m)
          else (nil, Some e, Suc k)
      | Inr out \<Rightarrow>
          if ToString (State out) = statusActive then
            (if occ = 1 then (DescribeOrganizationOutputPtr out, None, Suc k)
             else refreshLoop (createdConf conn oid t) 0 (Suc occ) statusActive (Suc k) m)
          else if ToString (State out) = statusCreating
          then refreshLoop (createdConf conn oid t) 0 0 statusCreating (Suc k) m
          else (DescribeOrganizationOutputPtr out,
                Some (UnexpectedStateError (ToString (State out)) [statusActive]), Suc k))"
  apply (simp only: refreshLoop.simps Refresh_createdConf created_round)
  apply (simp add: statusOrganization_def split: sum.splits)
  done

lemma waitOrganizationCreated_loop:
  "waitOrganizationCreated ctx conn oid t = (out, err, n) \<Longrightarrow>
     \<exists>raw. refreshLoop (createdConf conn oid t) 0 0 [] 0 (pollsWithin ctx t) = (raw, err, n) \<and>
           out = (case raw of DescribeOrganizationOutputPtr d \<Rightarrow> Some d | _ \<Rightarrow> None)"
  by (auto simp: waitOrganizationCreated_def WaitForStateContext_created
           split: prod.splits any_value.splits)

text \<open>A successful creation wait ends on a poll that observes Active; either one occurrence
  was already counted and only not-found polls came since, or an earlier poll of this run
  observed Active with only not-found polls after it.\<close>

lemma created_success_inv:
  "refreshLoop (createdConf conn oid t) nf occ ls k m = (res, None, n) \<Longrightarrow> occ \<le> 1 \<Longrightarrow>
     k < n \<and> observes conn oid (n - 1) statusActive \<and>
     ((occ = 1 \<and> (\<forall>i. k \<le> i \<and> i < n - 1 \<longrightarrow> reportsNotFound conn oid i)) \<or>
      (\<exists>j. k \<le> j \<and> j < n - 1 \<and> observes conn oid j statusActive \<and>
           (\<forall>i. j < i \<and> i < n - 1 \<longrightarrow> reportsNotFound conn oid i)))"
proof (induction m arbitrary: nf occ ls k)
  case 0
  then show ?case by simp
next
  case (Suc m)
  note step = Suc.prems(1)[unfolded created_step]
  show ?case
  proof (cases "findOrganizationByID conn oid k")
    case (Inl e)
    have nfk: "NotFound e \<Longrightarrow> reportsNotFound conn oid k"
      using Inl by (simp add: reportsNotFound_def)
    from step Inl have e: "NotFound e" "nf < 20"
      and L: "refreshLoop (createdConf conn oid t) (Suc nf) occ [] (Suc k) m = (res, None, n)"
      by (auto split: if_splits)
    have ext: "\<And>i. k \<le> i \<Longrightarrow> (Suc k \<le> i \<Longrightarrow> reportsNotFound conn oid i) \<Longrightarrow> reportsNotFound conn oid i"
      using nfk[OF e(1)] by (metis Suc_leI le_neq_implies_less)
    note IH = Suc.IH[OF L Suc.prems(2)]
    then have kn: "Suc k < n" and an: "observes conn oid (n - 1) statusActive"
      by simp_all
    from IH consider
        (a) "occ = 1" "\<forall>i. Suc k \<le> i \<and> i < n - 1 \<longrightarrow> reportsNotFound conn oid i"
      | (b) j where "Suc k \<le> j" "j < n - 1" "observes conn oid j statusActive"
          "\<forall>i. j < i \<and> i < n - 1 \<longrightarrow> reportsNotFound conn oid i"
      by blast
    then show ?thesis
    proof cases
      case a
      have "\<forall>i. k \<le> i \<and> i < n - 1 \<longrightarrow> reportsNotFound conn oid i"
        using a(2) ext by blast
      with kn an a(1) show ?thesis by simp
    next
      case b
      then have "\<exists>j\<ge>k. j < n - 1 \<and> observes conn oid j statusActive \<and>
          (\<forall>i. j < i \<and> i < n - 1 \<longrightarrow> reportsNotFound conn oid i)"
        using Suc_leD by blast
      with kn an show ?thesis by simp
    qed
  next
    case (Inr out)
    show ?thesis
    proof (cases "ToString (State out) = statusActive")
      case True
      have ak: "observes conn oid k statusActive" using Inr True by (simp add: observes_def)
      show ?thesis
      proof (cases "occ = 1")
        case True
        with step Inr \<open>ToString (State out) = statusActive\<close> have "n = Suc k" by simp
        with ak True show ?thesis by auto
      next
        case False
        with Suc.prems(2) have occ0: "occ = 0" by simp
        with step Inr True have
          L: "refreshLoop (createdConf conn oid t) 0 (Suc 0) statusActive (Suc k) m = (res, None, n)"
          by simp
        have "Suc 0 \<le> 1" by simp
        note IH = Suc.IH[OF L this]
        then have kn: "Suc k < n" and an: "observes conn oid (n - 1) statusActive"
          by simp_all
        from IH consider
            (a) "\<forall>i. Suc k \<le> i \<and> i < n - 1 \<longrightarrow> reportsNotFound conn oid i"
          | (b) j where "Suc k \<le> j" "j < n - 1" "observes conn oid j statusActive"
              "\<forall>i. j < i \<and> i < n - 1 \<longrightarrow> reportsNotFound conn oid i"
          by blast
        then show ?thesis
        proof cases
          case a
          have "k < n - 1" using kn by arith
          moreover have "\<forall>i. k < i \<and> i < n - 1 \<longrightarrow> reportsNotFound conn oid i"
            using a by (simp add: Suc_leI)
          ultimately have "\<exists>j\<ge>k. j < n - 1 \<and> observes conn oid j statusActive \<and>
              (\<forall>i. j < i \<and> i < n - 1 \<longrightarrow> reportsNotFound conn oid i)"
            using ak by blast
          with kn an show ?thesis by simp
        next
          case b
          then have "\<exists>j\<ge>k. j < n - 1 \<and> observes conn oid j statusActive \<and>
              (\<forall>i. j < i \<and> i < n - 1 \<longrightarrow> reportsNotFound conn oid i)"
            using Suc_leD by blast
          with kn an show ?thesis by simp
        qed
      qed
    next
      case False
      with step Inr have c: "ToString (State out) = statusCreating"
        and L: "refreshLoop (createdConf conn oid t) 0 0 statusCreating (Suc k) m = (res, None, n)"
        by (auto split: if_splits)
      have "(0::nat) \<le> 1" by simp
      note IH = Suc.IH[OF L this]
      then have kn: "Suc k < n" and an: "observes conn oid (n - 1) statusActive"
        by simp_all
      from IH obtain j where "Suc k \<le> j" "j < n - 1" "observes conn oid j statusActive"
          "\<forall>i. j < i \<and> i < n - 1 \<longrightarrow> reportsNotFound conn oid i"
        by auto
      then have "\<exists>j\<ge>k. j < n - 1 \<and> observes conn oid j statusActive \<and>
          (\<forall>i. j < i \<and> i < n - 1 \<longrightarrow> reportsNotFound conn oid i)"
        using Suc_leD by blast
      with kn an show ?thesis by simp
    qed
  qed
qed

lemma created_all_pending:
  "(\<forall>i<m. observes conn oid (k + i) statusCreating) \<Longrightarrow>
     refreshLoop (createdConf conn oid t) nf occ ls k m =
       (nil, Some (TimeoutError (if m = 0 then ls else statusCreating) t [statusActive]), k + m)"
proof (induction m arbitrary: nf occ ls k)
  case 0
  then show ?case by (simp add: createdConf_def)
next
  case (Suc m)
  from Suc.prems have "observes conn oid (k + 0) statusCreating" by blast
  then obtain out where out: "findOrganizationByID conn oid k = Inr out"
      "ToString (State out) = statusCreating"
    using observes_Inr by fastforce
  have "\<forall>i<m. observes conn oid (Suc k + i) statusCreating"
    using Suc.prems by (metis Suc_less_eq add_Suc_shift)
  from Suc.IH[OF this] out show ?case
    by (simp add: created_step status_defs)
qed

lemma waitOrganizationCreated_all_pending:
  assumes "\<forall>k<pollsWithin ctx t. observes conn oid k statusCreating"
  shows "waitOrganizationCreated ctx conn oid t =
           (None,
            Some (TimeoutError (if pollsWithin ctx t = 0 then [] else statusCreating) t [statusActive]),
            pollsWithin ctx t)"
  using created_all_pending[of "pollsWithin ctx t" conn oid 0 t 0 0 "[]"] assms
  by (simp add: waitOrganizationCreated_def WaitForStateContext_created)

lemma created_notfound_run:
  "(\<forall>i<j. reportsNotFound conn oid (k + i)) \<Longrightarrow> nf + j \<le> 20 \<Longrightarrow> j \<le> m \<Longrightarrow>
     refreshLoop (createdConf conn oid t) nf occ ls k m =
       refreshLoop (createdConf conn oid t) (nf + j) occ (if j = 0 then ls else []) (k + j) (m - j)"
proof (induction j arbitrary: nf ls k m)
  case 0
  then show ?case by simp
next
  case (Suc j)
  from Suc.prems(3) obtain m' where m: "m = Suc m'" by (cases m) auto
  from Suc.prems(1) have "reportsNotFound conn oid (k + 0)" by blast
  then obtain e where e: "findOrganizationByID conn oid k = Inl e" "NotFound e"
    using reportsNotFound_Inl by fastforce
  have rest: "\<forall>i<j. reportsNotFound conn oid (Suc k + i)"
    using Suc.prems(1) by (metis Suc_less_eq add_Suc_shift)
  have "refreshLoop (createdConf conn oid t) nf occ ls k m =
          refreshLoop (createdConf conn oid t) (Suc nf) occ [] (Suc k) m'"
    using e m Suc.prems(2) by (simp add: created_step)
  also have "\<dots> = refreshLoop (createdConf conn oid t) (Suc nf + j) occ
                      (if j = 0 then [] else []) (Suc k + j) (m' - j)"
    using Suc.IH[OF rest, of "Suc nf" m' "[]"] Suc.prems(2,3) m by simp
  finally show ?case using m by simp
qed

lemma created_notfound_inv:
  "refreshLoop (createdConf conn oid t) nf occ ls k m = (res, Some (NotFoundError x r), n) \<Longrightarrow>
     nf \<le> k \<Longrightarrow> nf \<le> 20 \<Longrightarrow>
     (\<forall>i. k - nf \<le> i \<and> i < k \<longrightarrow> reportsNotFound conn oid i) \<Longrightarrow>
     r = 21 \<and> 21 \<le> n \<and> (\<forall>i. n - 21 \<le> i \<and> i < n \<longrightarrow> reportsNotFound conn oid i)"
proof (induction m arbitrary: nf occ ls k)
  case 0
  then show ?case by simp
next
  case (Suc m)
  note step = Suc.prems(1)[unfolded created_step]
  show ?case
  proof (cases "findOrganizationByID conn oid k")
    case (Inl e)
    from step Inl have ne: "NotFound e"
      by (cases e) (auto split: if_splits)
    then have nfk: "reportsNotFound conn oid k" using Inl by (simp add: reportsNotFound_def)
    have run: "\<forall>i. Suc k - Suc nf \<le> i \<and> i < Suc k \<longrightarrow> reportsNotFound conn oid i"
      using Suc.prems(4) nfk by (auto simp: less_Suc_eq)
    show ?thesis
    proof (cases "20 \<le> nf")
      case True
      with Suc.prems(3) have nf: "nf = 20" by simp
      with step Inl ne have "r = 21" "n = Suc k" by simp_all
      with run nf Suc.prems(2) show ?thesis by simp
    next
      case False
      with step Inl ne have
        L: "refreshLoop (createdConf conn oid t) (Suc nf) occ [] (Suc k) m = (res, Some (NotFoundError x r), n)"
        by simp
      from False Suc.prems(2) have "Suc nf \<le> Suc k" "Suc nf \<le> 20" by simp_all
      from Suc.IH[OF L this run] show ?thesis .
    qed
  next
    case (Inr out)
    have zero: "\<forall>i. Suc k - 0 \<le> i \<and> i < Suc k \<longrightarrow> reportsNotFound conn oid i" by auto
    from step Inr consider
        (a) "refreshLoop (createdConf conn oid t) 0 (Suc occ) statusActive (Suc k) m = (res, Some (NotFoundError x r), n)"
      | (c) "refreshLoop (createdConf conn oid t) 0 0 statusCreating (Suc k) m = (res, Some (NotFoundError x r), n)"
      by (auto split: if_splits)
    then show ?thesis
    proof cases
      case a
      from Suc.IH[OF a _ _ zero] show ?thesis by simp
    next
      case c
      from Suc.IH[OF c _ _ zero] show ?thesis by simp
    qed
  qed
qed

text \<open>The counters of the loop are the two runs of the history: while no poll ends the wait,
  the loop after \<open>k\<close> polls is in the state the history before poll \<open>k\<close> gives.\<close>

lemma undecided_iff: "undecided conn oid k = (\<forall>i<k. \<not> endsWait conn oid i)"
  by (auto simp: undecided_def list_all_iff)

lemma notFoundRun_ge_iff:
  "(r \<le> notFoundRun conn oid k) =
     (r \<le> k \<and> (\<forall>i. k - r \<le> i \<and> i < k \<longrightarrow> reportsNotFound conn oid i))"
proof (induction k arbitrary: r)
  case 0
  then show ?case by simp
next
  case (Suc k)
  show ?case
  proof (cases r)
    case 0
    then show ?thesis by auto
  next
    case (Suc r')
    show ?thesis
    proof (cases "reportsNotFound conn oid k")
      case True
      have "(\<forall>i. Suc k - Suc r' \<le> i \<and> i < Suc k \<longrightarrow> reportsNotFound conn oid i) =
            (\<forall>i. k - r' \<le> i \<and> i < k \<longrightarrow> reportsNotFound conn oid i)"
        using True by (auto simp: less_Suc_eq)
      with True Suc Suc.IH[of r'] show ?thesis by simp
    next
      case False
      then have "\<not> (\<forall>i. Suc k - Suc r' \<le> i \<and> i < Suc k \<longrightarrow> reportsNotFound conn oid i)"
        by (metis diff_le_self diff_Suc_Suc lessI)
      with False Suc show ?thesis by simp
    qed
  qed
qed

lemma undecided_notFoundRun_le:
  "undecided conn oid k \<Longrightarrow> notFoundRun conn oid k \<le> 20"
proof (cases k)
  case 0
  then show ?thesis by simp
next
  case (Suc k')
  assume "undecided conn oid k"
  with Suc have ne: "\<not> endsWait conn oid k'" by (simp add: undecided_iff)
  show ?thesis
  proof (cases "reportsNotFound conn oid k'")
    case True
    then obtain e where "findOrganizationByID conn oid k' = Inl e" "NotFound e"
      using reportsNotFound_Inl by blast
    with ne have "notFoundRun conn oid k' < 20" by (simp add: endsWait_def)
    with True Suc show ?thesis by simp
  next
    case False
    with Suc show ?thesis by simp
  qed
qed

lemma loop_polls_gt:
  "refreshLoop conf nf occ ls k (Suc m) = (res, err, n) \<Longrightarrow> k < n"
proof (induction m arbitrary: nf occ ls k)
  case 0
  then show ?case
    by (cases "refreshRound conf nf occ (Refresh conf k)") (auto simp: refreshLoop.simps)
next
  case (Suc m)
  show ?case
  proof (cases "refreshRound conf nf occ (Refresh conf k)")
    case (Continue nf' occ')
    with Suc.prems have
      "refreshLoop conf nf' occ' (fst (snd (Refresh conf k))) (Suc k) (Suc m) = (res, err, n)"
      by (simp add: refreshLoop.simps)
    from Suc.IH[OF this] show ?thesis by simp
  next
    case (Return res' err')
    with Suc.prems show ?thesis by (simp add: refreshLoop.simps)
  qed
qed

lemma created_undecided_step:
  assumes "\<not> endsWait conn oid k"
  shows "\<exists>ls'. refreshLoop (createdConf conn oid t)
                 (notFoundRun conn oid k) (activeRun conn oid k) ls k (Suc m) =
               refreshLoop (createdConf conn oid t)
                 (notFoundRun conn oid (Suc k)) (activeRun conn oid (Suc k)) ls' (Suc k) m"
proof (cases "findOrganizationByID conn oid k")
  case (Inl e)
  with assms have e: "NotFound e" "\<not> 20 \<le> notFoundRun conn oid k"
    by (simp_all add: endsWait_def)
  then have nf: "reportsNotFound conn oid k" "\<not> observes conn oid k statusActive"
    using Inl by (simp_all add: reportsNotFound_def observes_def)
  show ?thesis using Inl e nf by (auto simp: created_step)
next
  case (Inr out)
  then have nnf: "\<not> reportsNotFound conn oid k" by (simp add: reportsNotFound_def)
  show ?thesis
  proof (cases "ToString (State out) = statusActive")
    case True
    with assms Inr have a0: "activeRun conn oid k = 0" by (simp add: endsWait_def)
    have "observes conn oid k statusActive" using Inr True by (simp add: observes_def)
    with Inr True a0 nnf show ?thesis by (auto simp: created_step)
  next
    case False
    with assms Inr have c: "ToString (State out) = statusCreating" by (simp add: endsWait_def)
    have "\<not> observes conn oid k statusActive" using Inr False by (simp add: observes_def)
    with Inr False c nnf show ?thesis by (auto simp: created_step)
  qed
qed

lemma created_undecided_run:
  "(\<forall>i. k0 \<le> i \<and> i < j \<longrightarrow> \<not> endsWait conn oid i) \<Longrightarrow> k0 \<le> j \<Longrightarrow> j \<le> k0 + m \<Longrightarrow>
     \<exists>ls'. refreshLoop (createdConf conn oid t)
             (notFoundRun conn oid k0) (activeRun conn oid k0) ls k0 m =
           refreshLoop (createdConf conn oid t)
             (notFoundRun conn oid j) (activeRun conn oid j) ls' j (k0 + m - j)"
proof (induction m arbitrary: k0 ls)
  case 0
  then have "j = k0" by simp
  then show ?case by auto
next
  case (Suc m)
  show ?case
  proof (cases "j = k0")
    case True
    then show ?thesis by auto
  next
    case False
    with Suc.prems have lt: "Suc k0 \<le> j" and ne: "\<not> endsWait conn oid k0" by simp_all
    from created_undecided_step[OF ne] obtain ls1 where
      s: "refreshLoop (createdConf conn oid t)
            (notFoundRun conn oid k0) (activeRun conn oid k0) ls k0 (Suc m) =
          refreshLoop (createdConf conn oid t)
            (notFoundRun conn oid (Suc k0)) (activeRun conn oid (Suc k0)) ls1 (Suc k0) m"
      by blast
    have rest: "\<forall>i. Suc k0 \<le> i \<and> i < j \<longrightarrow> \<not> endsWait conn oid i"
      using Suc.prems(1) by simp
    from Suc.IH[OF rest lt, of ls1] Suc.prems(3) obtain ls' where
      "refreshLoop (createdConf conn oid t)
         (notFoundRun conn oid (Suc k0)) (activeRun conn oid (Suc k0)) ls1 (Suc k0) m =
       refreshLoop (createdConf conn oid t)
         (notFoundRun conn oid j) (activeRun conn oid j) ls' j (Suc k0 + m - j)"
      by auto
    with s show ?thesis by auto
  qed
qed

lemma created_undecided_prefix:
  assumes "undecided conn oid j" and "j \<le> pollsWithin ctx t"
  shows "\<exists>ls'. refreshLoop (createdConf conn oid t) 0 0 [] 0 (pollsWithin ctx t) =
               refreshLoop (createdConf conn oid t)
                 (notFoundRun conn oid j) (activeRun conn oid j) ls' j (pollsWithin ctx t - j)"
  using created_undecided_run[of 0 j conn oid "pollsWithin ctx t" t "[]"] assms
  by (simp add: undecided_iff)

lemma undecided_Suc:
  "undecided conn oid (Suc k) = (undecided conn oid k \<and> \<not> endsWait conn oid k)"
  by (auto simp: undecided_iff less_Suc_eq)

lemma not_endsWait_tolerated:
  "reportsNotFound conn oid k \<Longrightarrow> notFoundRun conn oid k < 20 \<Longrightarrow> \<not> endsWait conn oid k"
  by (auto simp: endsWait_def reportsNotFound_def split: sum.splits)

lemma created_notfound_from_start:
  "(n \<le> 20 \<and> (\<forall>i<n. reportsNotFound conn oid i) \<and> observes conn oid n statusActive \<and>
      observes conn oid (Suc n) statusActive \<and> n + 2 \<le> pollsWithin ctx t \<longrightarrow>
        (\<exists>out. waitOrganizationCreated ctx conn oid t = (Some out, None, n + 2))) \<and>
   ((\<forall>i<21. reportsNotFound conn oid i) \<and> 21 \<le> pollsWithin ctx t \<longrightarrow>
        waitOrganizationCreated ctx conn oid t = (None, Some (NotFoundError None 21), 21)) \<and>
   (\<forall>out x r m. waitOrganizationCreated ctx conn oid t = (out, Some (NotFoundError x r), m) \<longrightarrow>
        r = 21 \<and> 21 \<le> m \<and> (\<forall>i. m - 21 \<le> i \<and> i < m \<longrightarrow> reportsNotFound conn oid i))"
proof (intro conjI impI allI)
  assume a: "n \<le> 20 \<and> (\<forall>i<n. reportsNotFound conn oid i) \<and> observes conn oid n statusActive \<and>
      observes conn oid (Suc n) statusActive \<and> n + 2 \<le> pollsWithin ctx t"
  define m where "m = pollsWithin ctx t - n - 2"
  have m: "pollsWithin ctx t - n = Suc (Suc m)" using a unfolding m_def by arith
  from a obtain o1 o2 where o: "findOrganizationByID conn oid n = Inr o1"
      "ToString (State o1) = statusActive"
      "findOrganizationByID conn oid (Suc n) = Inr o2" "ToString (State o2) = statusActive"
    using observes_Inr by blast
  have "refreshLoop (createdConf conn oid t) 0 0 [] 0 (pollsWithin ctx t) =
          refreshLoop (createdConf conn oid t) n 0 (if n = 0 then [] else []) n (pollsWithin ctx t - n)"
    using created_notfound_run[of n conn oid 0 0 "pollsWithin ctx t" t 0 "[]"] a by simp
  also have "\<dots> = (DescribeOrganizationOutputPtr o2, None, n + 2)"
    using o m by (simp add: created_step)
  finally show "\<exists>out. waitOrganizationCreated ctx conn oid t = (Some out, None, n + 2)"
    by (simp add: waitOrganizationCreated_def WaitForStateContext_created)
next
  assume a: "(\<forall>i<21. reportsNotFound conn oid i) \<and> 21 \<le> pollsWithin ctx t"
  define m where "m = pollsWithin ctx t - 21"
  have m: "pollsWithin ctx t - 20 = Suc m" using a unfolding m_def by arith
  from a have "reportsNotFound conn oid 20" by simp
  then obtain e where e: "findOrganizationByID conn oid 20 = Inl e" "NotFound e"
    using reportsNotFound_Inl by blast
  have "refreshLoop (createdConf conn oid t) 0 0 [] 0 (pollsWithin ctx t) =
          refreshLoop (createdConf conn oid t) 20 0 [] 20 (pollsWithin ctx t - 20)"
    using created_notfound_run[of 20 conn oid 0 0 "pollsWithin ctx t" t 0 "[]"] a by simp
  also have "\<dots> = (nil, Some (NotFoundError None 21), 21)"
    using e m by (simp add: created_step)
  finally show "waitOrganizationCreated ctx conn oid t = (None, Some (NotFoundError None 21), 21)"
    by (simp add: waitOrganizationCreated_def WaitForStateContext_created)
next
  fix out x r m
  assume "waitOrganizationCreated ctx conn oid t = (out, Some (NotFoundError x r), m)"
  from waitOrganizationCreated_loop[OF this] obtain raw where
    "refreshLoop (createdConf conn oid t) 0 0 [] 0 (pollsWithin ctx t) = (raw, Some (NotFoundError x r), m)"
    by blast
  from created_notfound_inv[OF this] 
  have "r = 21 \<and> 21 \<le> m \<and> (\<forall>i. m - 21 \<le> i \<and> i < m \<longrightarrow> reportsNotFound conn oid i)" by simp
  then show "r = 21" "21 \<le> m" "\<And>i. m - 21 \<le> i \<and> i < m \<Longrightarrow> reportsNotFound conn oid i" by blast+
qed

subsection \<open>The deletion wait\<close>

lemma WaitForStateContext_deleted:
  "WaitForStateContext ctx (deletedConf conn oid t) =
     refreshLoop (deletedConf' conn oid t) 0 0 [] 0 (pollsWithin ctx t)"
  by (simp add: WaitForStateContext_def deletedConf_def deletedConf'_def)

lemma Refresh_deletedConf: "Refresh (deletedConf' conn oid t) = statusOrganization conn oid"
  by (simp add: deletedConf_def deletedConf'_def)

lemma deleted_round:
  "refreshRound (deletedConf' conn oid t) nf 0 (statusOrganization conn oid k) =
     (case findOrganizationByID conn oid k of
        Inl e \<Rightarrow>
          if NotFound e then
            (if 20 \<le> nf then Return nil (Some (NotFoundError None (Suc nf)))
             else Continue (Suc nf) 0)
          else Return nil (Some e)
      | Inr out \<Rightarrow>
          if ToString (State out) = statusDeleted
          then Return (DescribeOrganizationOutputPtr out) None
          else if ToString (State out) = statusDeleting \<or> ToString (State out) = statusActive
          then Continue 0 0
          else Return (DescribeOrganizationOutputPtr out)
                 (Some (UnexpectedStateError (ToString (State out)) [statusDeleted])))"
  by (auto simp: refreshRound_def deletedConf_def deletedConf'_def statusOrganization_def
             status_defs split: sum.splits)

lemma deleted_step:
  "refreshLoop (deletedConf' conn oid t) nf 0 ls k (Suc m) =
     (case findOrganizationByID conn oid k of
        Inl e \<Rightarrow>
          if NotFound e then
            (if 20 \<le> nf then (nil, Some (NotFoundError None (Suc nf)), Suc k)
             else refreshLoop (deletedConf' conn oid t) (Suc nf) 0 [] (Suc k) m)
          else (nil, Some e, Suc k)
      | Inr out \<Rightarrow>
          if ToString (State out) = statusDeleted
          then (DescribeOrganizationOutputPtr out, None, Suc k)
          else if ToString (State out) = statusDeleting \<or> ToString (State out) = statusActive
          then refreshLoop (deletedConf' conn oid t) 0 0 (ToString (State out)) (Suc k) m
          else (DescribeOrganizationOutputPtr out,
                Some (UnexpectedStateError (ToString (State out)) [statusDeleted]), Suc k))"
  apply (simp only: refreshLoop.simps Refresh_deletedConf deleted_round)
  apply (simp add: statusOrganization_def split: sum.splits)
  done

lemma waitOrganizationDeleted_loop:
  "waitOrganizationDeleted ctx conn oid t = (out, err, n) \<Longrightarrow>
     \<exists>raw. refreshLoop (deletedConf' conn oid t) 0 0 [] 0 (pollsWithin ctx t) = (raw, err, n) \<and>
           out = (case raw of OrganizationPtr d \<Rightarrow> Some d | _ \<Rightarrow> None)"
  by (auto simp: waitOrganizationDeleted_def WaitForStateContext_deleted
           split: prod.splits any_value.splits)

lemma deleted_first_Deleted:
  "refreshLoop (deletedConf' conn oid t) nf 0 ls k0 m = (res, err, n) \<Longrightarrow> k0 \<le> k \<Longrightarrow> k < n \<Longrightarrow>
     observes conn oid k statusDeleted \<Longrightarrow> err = None \<and> n = Suc k"
proof (induction m arbitrary: nf ls k0)
  case 0
  then show ?case by simp
next
  case (Suc m)
  note step = Suc.prems(1)[unfolded deleted_step]
  show ?case
  proof (cases "k0 = k")
    case True
    with Suc.prems(4) step show ?thesis
      by (auto simp: observes_def split: sum.splits)
  next
    case False
    with Suc.prems have lt: "Suc k0 \<le> k" by simp
    have stop: "n = Suc k0 \<Longrightarrow> ?thesis" using lt Suc.prems(3) by simp
    show ?thesis
    proof (cases "findOrganizationByID conn oid k0")
      case (Inl e)
      show ?thesis
      proof (cases "NotFound e \<and> nf < 20")
        case True
        with step Inl have
          "refreshLoop (deletedConf' conn oid t) (Suc nf) 0 [] (Suc k0) m = (res, err, n)"
          by simp
        from Suc.IH[OF this lt Suc.prems(3,4)] show ?thesis .
      next
        case False
        with step Inl have "n = Suc k0" by (auto split: if_splits)
        then show ?thesis by (rule stop)
      qed
    next
      case (Inr out)
      show ?thesis
      proof (cases "ToString (State out) = statusDeleting \<or> ToString (State out) = statusActive")
        case True
        then have "ToString (State out) \<noteq> statusDeleted" by (auto simp: status_defs)
        with True step Inr have
          "refreshLoop (deletedConf' conn oid t) 0 0 (ToString (State out)) (Suc k0) m = (res, err, n)"
          by simp
        from Suc.IH[OF this lt Suc.prems(3,4)] show ?thesis .
      next
        case False
        with step Inr have "n = Suc k0" by (auto split: if_splits)
        then show ?thesis by (rule stop)
      qed
    qed
  qed
qed

lemma deleted_pending_prefix:
  "(\<forall>i<j. observes conn oid (k + i) statusDeleting \<or> observes conn oid (k + i) statusActive) \<Longrightarrow>
     observes conn oid (k + j) statusDeleted \<Longrightarrow> j < m \<Longrightarrow>
     \<exists>out. refreshLoop (deletedConf' conn oid t) nf 0 ls k m =
             (DescribeOrganizationOutputPtr out, None, Suc (k + j))"
proof (induction j arbitrary: nf ls k m)
  case 0
  then obtain m' where m: "m = Suc m'" by (cases m) auto
  from 0 obtain out where "findOrganizationByID conn oid k = Inr out"
      "ToString (State out) = statusDeleted"
    using observes_Inr by fastforce
  then show ?case using m by (simp add: deleted_step)
next
  case (Suc j)
  then obtain m' where m: "m = Suc m'" "j < m'" by (cases m) auto
  from Suc.prems(1) have
    "observes conn oid (k + 0) statusDeleting \<or> observes conn oid (k + 0) statusActive"
    by blast
  then obtain out where out: "findOrganizationByID conn oid k = Inr out"
      "ToString (State out) = statusDeleting \<or> ToString (State out) = statusActive"
    using observes_Inr by fastforce
  then have nd: "ToString (State out) \<noteq> statusDeleted" by (auto simp: status_defs)
  have rest: "\<forall>i<j. observes conn oid (Suc k + i) statusDeleting \<or>
                     observes conn oid (Suc k + i) statusActive"
    using Suc.prems(1) by (metis Suc_less_eq add_Suc_shift)
  have last: "observes conn oid (Suc k + j) statusDeleted" using Suc.prems(2) by simp
  from Suc.IH[OF rest last m(2), of 0 "ToString (State out)"] out nd m(1)
  show ?case by (simp add: deleted_step)
qed

text \<open>The first observation of Deleted ends the deletion wait with success: a poll that takes
  place and observes Deleted is the last one, and a run of Deleting or Active observations
  followed by Deleted within the timeout succeeds at that poll.\<close>

lemma waitOrganizationDeleted_first_Deleted:
  assumes "waitOrganizationDeleted ctx conn oid t = (out, err, n)"
  shows "(\<forall>k<n. observes conn oid k statusDeleted \<longrightarrow> err = None \<and> n = Suc k) \<and>
         (\<forall>k<pollsWithin ctx t.
            (\<forall>i<k. observes conn oid i statusDeleting \<or> observes conn oid i statusActive) \<longrightarrow>
            observes conn oid k statusDeleted \<longrightarrow> err = None \<and> n = Suc k)"
proof -
  from waitOrganizationDeleted_loop[OF assms] obtain raw where
    L: "refreshLoop (deletedConf' conn oid t) 0 0 [] 0 (pollsWithin ctx t) = (raw, err, n)"
    by blast
  have first: "\<forall>k<n. observes conn oid k statusDeleted \<longrightarrow> err = None \<and> n = Suc k"
    using deleted_first_Deleted[OF L] by blast
  have reach: "err = None \<and> n = Suc k"
    if "k < pollsWithin ctx t"
      "\<forall>i<k. observes conn oid i statusDeleting \<or> observes conn oid i statusActive"
      "observes conn oid k statusDeleted" for k
    using deleted_pending_prefix[of k conn oid 0 "pollsWithin ctx t" t 0 "[]"] that L by auto
  from first reach show ?thesis by blast
qed

subsection \<open>Create\<close>

lemma HasError_append: "HasError (xs @ ys) = (HasError xs \<or> HasError ys)"
  by (simp add: HasError_def)

lemma Create_reaches_wait:
  assumes "\<not> HasError (GetDiags fw @ ExpandDiags fw)"
    and "CreateOrganization conn = Inr (Some created)"
    and "CreatedOrganizationId created \<noteq> None"
    and "FlattenCreate fw created plan = (fdiags, plan')"
    and "\<not> HasError fdiags"
    and "waitOrganizationCreated ctx conn (ToString (ID plan')) (CreateTimeout r (Timeouts plan')) =
           (out, err, polls)"
  shows "Create r ctx conn fw plan =
           (case err of
              Some e \<Rightarrow>
                \<lparr>Diagnostics = GetDiags fw @ ExpandDiags fw @ fdiags @ [ErrorDiagnostic e],
                 StateCall = NoStateCall, DescribeCalls = polls\<rparr>
            | None \<Rightarrow>
                \<lparr>Diagnostics = GetDiags fw @ ExpandDiags fw @ fdiags @ SetDiags fw,
                 StateCall = Set plan', DescribeCalls = polls\<rparr>)"
  using assms by (auto simp: Create_def HasError_append Let_def split: option.splits)

subsection \<open>Observations of the concrete remotes\<close>

lemma debounce_run:
  "waitOrganizationCreated (pollsAllowed 5) debounceClient ''m-1'' (5 * Minute) =
     (Some (describedOrganization statusActive), None, 5)"
  by code_simp

lemma debounce_observations:
  "observes debounceClient ''m-1'' 0 statusCreating"
  "observes debounceClient ''m-1'' 1 statusActive"
  "observes debounceClient ''m-1'' 2 statusCreating"
  "observes debounceClient ''m-1'' 3 statusActive"
  "observes debounceClient ''m-1'' 4 statusActive"
  by code_simp+

lemma observes_pendingClient: "observes pendingClient oid k statusCreating"
  by (simp add: observes_def pendingClient_def findOrganizationByID_def organizationIn_def
                describedOrganization_def ToString_def)

lemma Create_pending_setup:
  "\<not> HasError (GetDiags quietFramework @ ExpandDiags quietFramework)"
  "CreateOrganization pendingClient = Inr (Some (CreateOrganizationOutput (Some ''m-1'')))"
  "CreatedOrganizationId (CreateOrganizationOutput (Some ''m-1'')) \<noteq> None"
  "FlattenCreate quietFramework (CreateOrganizationOutput (Some ''m-1'')) examplePlan =
     ([], examplePlan\<lparr>ID := Some ''m-1''\<rparr>)"
  "\<not> HasError []"
  "map_of (Timeouts (examplePlan\<lparr>ID := Some ''m-1''\<rparr>)) ''create'' = Some (5 * Minute)"
  "5 * Minute = CreateTimeout newResourceOrganization (Timeouts (examplePlan\<lparr>ID := Some ''m-1''\<rparr>))"
  by (simp_all add: quietFramework_def pendingClient_def HasError_def examplePlan_def
                    CreateTimeout_def)

lemma late_observations:
  "reportsNotFound lateClient ''m-1'' 0"
  "reportsNotFound lateClient ''m-1'' 1"
  "observes lateClient ''m-1'' 2 statusActive"
  "observes lateClient ''m-1'' 3 statusActive"
  by code_simp+

lemma late_run:
  "waitOrganizationCreated (pollsAllowed 10) lateClient ''m-1'' (5 * Minute) =
     (Some (describedOrganization statusActive), None, 4)"
  by code_simp

lemma creatingThenGone_history:
  "undecided creatingThenGoneClient ''m-1'' 21"
  "reportsNotFound creatingThenGoneClient ''m-1'' 21"
  "notFoundRun creatingThenGoneClient ''m-1'' 21 = 20"
  "observes creatingThenGoneClient ''m-1'' 0 statusCreating"
  "reportsNotFound creatingThenGoneClient ''m-1'' 1"
  "notFoundRun creatingThenGoneClient ''m-1'' 1 = 0"
  "undecided creatingThenGoneClient ''m-1'' 1"
  by code_simp+

lemma creatingThenGone_cut_run:
  "waitOrganizationCreated (pollsAllowed 21) creatingThenGoneClient ''m-1'' (10 * Minute) =
     (None, Some (TimeoutError [] (10 * Minute) [statusActive]), 21)"
  by code_simp

lemma reportsNotFound_goneClient: "reportsNotFound goneClient oid k"
  by (simp add: reportsNotFound_def goneClient_def findOrganizationByID_def)

lemma broken_find:
  "findOrganizationByID brokenClient ''m-1'' 1 = Inl (ClientError (OperationError ''throttled''))"
  by code_simp

lemma broken_run:
  "waitOrganizationCreated (pollsAllowed 5) brokenClient ''m-1'' (5 * Minute) =
     (None, Some (ClientError (OperationError ''throttled'')), 2)"
  by code_simp

subsection \<open>C1: debounce of the creation wait\<close>

text \<open>Claim C1, as amended. The creation wait declares success only on a poll that observes
  Active (so after at least two polls), and only when an earlier poll observed Active with
  nothing but not-found polls between the two: a Creating observation resets the count, a
  not-found poll does not, so the two Active polls need not be consecutive. In particular an
  Active observation directly preceded by a Creating observation never ends the wait with
  success at that poll.\<close>

theorem waitOrganizationCreated_success_after_two_Active:
  assumes "waitOrganizationCreated ctx conn oid t = (out, None, n)"
  shows "2 \<le> n \<and> observes conn oid (n - 1) statusActive \<and>
         (\<exists>j<n - 1. observes conn oid j statusActive \<and>
                    (\<forall>i. j < i \<and> i < n - 1 \<longrightarrow> reportsNotFound conn oid i)) \<and>
         (\<forall>k. observes conn oid k statusCreating \<longrightarrow> observes conn oid (Suc k) statusActive \<longrightarrow>
              n \<noteq> k + 2)"
proof -
  from waitOrganizationCreated_loop[OF assms] obtain raw where
    "refreshLoop (createdConf conn oid t) 0 0 [] 0 (pollsWithin ctx t) = (raw, None, n)"
    by blast
  from created_success_inv[OF this] obtain j where
    last: "observes conn oid (n - 1) statusActive" and
    j: "j < n - 1" "observes conn oid j statusActive"
       "\<forall>i. j < i \<and> i < n - 1 \<longrightarrow> reportsNotFound conn oid i"
    by auto
  have flank: "n \<noteq> k + 2"
    if c: "observes conn oid k statusCreating" and a: "observes conn oid (Suc k) statusActive" for k
  proof
    assume n: "n = k + 2"
    with j(1) have "j = k \<or> j < k" by arith
    then show False
    proof
      assume "j = k"
      with j(2) c have "statusActive = statusCreating" by (auto dest: observes_functional)
      then show False by (simp add: status_defs)
    next
      assume "j < k"
      with j(3) n have "reportsNotFound conn oid k" by simp
      with c show False by (simp add: observes_not_reportsNotFound)
    qed
  qed
  from j(1) have "2 \<le> n" by arith
  with last j flank show ?thesis by blast
qed

text \<open>The claim as stated fails: with the observations Active, not-found, Active the wait
  succeeds at the third poll, although the poll before it did not observe Active.\<close>

theorem waitOrganizationCreated_nonconsecutive_counterexample:
  "waitOrganizationCreated (pollsAllowed 3) flickerClient ''m-1'' (5 * Minute) =
     (Some (describedOrganization statusActive), None, 3) \<and>
   reportsNotFound flickerClient ''m-1'' 1 \<and>
   \<not> observes flickerClient ''m-1'' 1 statusActive"
  by code_simp

text \<open>The theorem at the observations Creating, Active, Creating, Active, Active: success comes
  at the fifth poll, not at the second.\<close>

theorem waitOrganizationCreated_success_after_two_Active_witness:
  "waitOrganizationCreated (pollsAllowed 5) debounceClient ''m-1'' (5 * Minute) =
     (Some (describedOrganization statusActive), None, 5) \<and>
   observes debounceClient ''m-1'' 0 statusCreating \<and>
   observes debounceClient ''m-1'' (Suc 0) statusActive \<and>
   (5::nat) \<noteq> 0 + 2 \<and>
   observes debounceClient ''m-1'' (5 - 1) statusActive"
  using waitOrganizationCreated_success_after_two_Active[OF debounce_run]
    debounce_run debounce_observations
  by simp

subsection \<open>C2: target of the deletion wait\<close>

text \<open>Claim C2. The deletion wait should reach its target at once, with success, when the fetch
  reports the organization as not-found. The code does not: when DeleteOrganization has
  succeeded and the remote then reports not-found on every poll, the deletion wait polls 21
  times and returns a NotFoundError, and Delete reports that error, although Delete itself takes
  a not-found answer of DeleteOrganization for success. (The other half of the claim holds:
  the first observation of Deleted ends the wait with success.)\<close>

theorem waitOrganizationDeleted_not_found_fails:
  "DeleteOrganization vanishedClient (ID exampleState) = None \<and>
   reportsNotFound vanishedClient ''m-1'' 0 \<and>
   reportsNotFound vanishedClient ''m-1'' 20 \<and>
   waitOrganizationDeleted (pollsAllowed 30) vanishedClient ''m-1'' (10 * Minute) =
     (None, Some (NotFoundError None 21), 21) \<and>
   Diagnostics (Delete newResourceOrganization (pollsAllowed 30) vanishedClient quietFramework
                  exampleState) =
     [ErrorDiagnostic (NotFoundError None 21)]"
  by code_simp

subsection \<open>C3: configurable timeouts\<close>

text \<open>Claim C3, as amended. The schema offers a configurable timeout for the create phase:
  a timeouts value that sets \<open>create\<close> conforms to the schema, \<open>CreateTimeout\<close> returns
  the configured duration, and a Create that reaches its wait runs the wait with it (the number
  of polls, and whether the state is set, are those of the creation wait with that duration).\<close>

theorem create_timeout_is_configurable:
  assumes "\<not> HasError (GetDiags fw @ ExpandDiags fw)"
    and "CreateOrganization conn = Inr (Some created)"
    and "CreatedOrganizationId created \<noteq> None"
    and "FlattenCreate fw created plan = (fdiags, plan')"
    and "\<not> HasError fdiags"
    and "map_of (Timeouts plan') ''create'' = Some d"
  shows "timeoutsConform Schema [(''create'', d)] \<and>
         CreateTimeout r (Timeouts plan') = d \<and>
         DescribeCalls (Create r ctx conn fw plan) =
           snd (snd (waitOrganizationCreated ctx conn (ToString (ID plan')) d)) \<and>
         (StateCall (Create r ctx conn fw plan) = Set plan') =
           (fst (snd (waitOrganizationCreated ctx conn (ToString (ID plan')) d)) = None) \<and>
         ((\<forall>k<pollsWithin ctx d. observes conn (ToString (ID plan')) k statusCreating) \<longrightarrow>
            DescribeCalls (Create r ctx conn fw plan) = pollsWithin ctx d)"
proof -
  have conf: "timeoutsConform Schema [(''create'', d)]"
    by (simp add: timeoutsConform_def configurableTimeouts_def Schema_def timeouts_Attributes_def)
  have ct: "CreateTimeout r (Timeouts plan') = d"
    using assms(6) by (simp add: CreateTimeout_def)
  obtain out err polls where
    w: "waitOrganizationCreated ctx conn (ToString (ID plan')) d = (out, err, polls)"
    by (cases "waitOrganizationCreated ctx conn (ToString (ID plan')) d") auto
  note c = Create_reaches_wait[OF assms(1-5) w[folded ct]]
  have calls: "DescribeCalls (Create r ctx conn fw plan) = polls"
    using c by (simp split: option.splits)
  have st: "(StateCall (Create r ctx conn fw plan) = Set plan') = (err = None)"
    using c by (simp split: option.splits)
  have pend: "DescribeCalls (Create r ctx conn fw plan) = pollsWithin ctx d"
    if "\<forall>k<pollsWithin ctx d. observes conn (ToString (ID plan')) k statusCreating"
    using waitOrganizationCreated_all_pending[OF that] w calls by simp
  from conf ct calls st pend w show ?thesis by simp
qed

text \<open>The claim as stated fails: a timeouts value that sets \<open>delete\<close> or \<open>update\<close> does not
  conform to the schema, which switches on the create timeout only.\<close>

theorem delete_timeout_not_configurable_counterexample:
  "\<not> timeoutsConform Schema [(''delete'', 5 * Minute)] \<and>
   \<not> timeoutsConform Schema [(''update'', 5 * Minute)]"
  by (simp add: timeoutsConform_def configurableTimeouts_def Schema_def timeouts_Attributes_def)

text \<open>The theorem at a plan with a create timeout of five minutes and a remote that stays in
  Creating.\<close>

theorem create_timeout_is_configurable_witness:
  "map_of (Timeouts (examplePlan\<lparr>ID := Some ''m-1''\<rparr>)) ''create'' = Some (5 * Minute) \<and>
   timeoutsConform Schema [(''create'', 5 * Minute)] \<and>
   DescribeCalls (Create newResourceOrganization (pollsAllowed 4) pendingClient quietFramework
                    examplePlan) = 4"
  using create_timeout_is_configurable[OF Create_pending_setup(1-6),
          where ctx = "pollsAllowed 4" and r = newResourceOrganization]
    Create_pending_setup(6) observes_pendingClient
  by (simp add: pollsAllowed_def)

subsection \<open>C4: timeout of Create\<close>

text \<open>Claim C4. When every poll the timeout allows observes the pending state Creating, the
  creation wait returns a TimeoutError, and Create returns with that error in its diagnostics
  and without a call on the state.\<close>

theorem Create_timeout_commits_no_state:
  assumes "\<not> HasError (GetDiags fw @ ExpandDiags fw)"
    and "CreateOrganization conn = Inr (Some created)"
    and "CreatedOrganizationId created \<noteq> None"
    and "FlattenCreate fw created plan = (fdiags, plan')"
    and "\<not> HasError fdiags"
    and "timeout = CreateTimeout r (Timeouts plan')"
    and "\<forall>k<pollsWithin ctx timeout. observes conn (ToString (ID plan')) k statusCreating"
  shows "\<exists>lastState.
           waitOrganizationCreated ctx conn (ToString (ID plan')) timeout =
             (None, Some (TimeoutError lastState timeout [statusActive]), pollsWithin ctx timeout) \<and>
           Create r ctx conn fw plan =
             \<lparr>Diagnostics = GetDiags fw @ ExpandDiags fw @ fdiags @
                            [ErrorDiagnostic (TimeoutError lastState timeout [statusActive])],
              StateCall = NoStateCall, DescribeCalls = pollsWithin ctx timeout\<rparr>"
proof -
  note w = waitOrganizationCreated_all_pending[OF assms(7)]
  from Create_reaches_wait[OF assms(1-5) w[unfolded assms(6)]] w show ?thesis
    by (simp add: assms(6))
qed

text \<open>The theorem at a remote that stays in Creating and a timeout that allows four polls.\<close>

theorem Create_timeout_commits_no_state_witness:
  "pollsWithin (pollsAllowed 4) (5 * Minute) = 4 \<and>
   observes pendingClient (ToString (ID (examplePlan\<lparr>ID := Some ''m-1''\<rparr>))) 0 statusCreating \<and>
   observes pendingClient (ToString (ID (examplePlan\<lparr>ID := Some ''m-1''\<rparr>))) 3 statusCreating \<and>
   StateCall (Create newResourceOrganization (pollsAllowed 4) pendingClient quietFramework
                examplePlan) = NoStateCall \<and>
   Diagnostics (Create newResourceOrganization (pollsAllowed 4) pendingClient quietFramework
                  examplePlan) =
     [ErrorDiagnostic (TimeoutError statusCreating (5 * Minute) [statusActive])]"
  using Create_timeout_commits_no_state[OF Create_pending_setup(1-5) Create_pending_setup(7),
          where ctx = "pollsAllowed 4"]
    observes_pendingClient
    waitOrganizationCreated_all_pending[where ctx = "pollsAllowed 4" and t = "5 * Minute"
      and conn = pendingClient and oid = "ToString (ID (examplePlan\<lparr>ID := Some ''m-1''\<rparr>))"]
  by (auto simp: pollsAllowed_def quietFramework_def)

subsection \<open>C5: not-found during the creation wait\<close>

text \<open>Claim C5, as amended. During the creation wait up to 20 consecutive not-found polls are
  tolerated and polling goes on, wherever in the wait they occur: a not-found poll that follows
  fewer than 20 consecutive not-found polls does not end an undecided wait, the next poll is
  made, and a wait that no poll ends runs until its timeout. The 21st consecutive not-found
  poll ends the wait with a NotFoundError that counts 21 retries, and every NotFoundError of the
  wait comes from 21 consecutive not-found polls. The failure is a NotFoundError, not a
  TimeoutError. The first two conjuncts are the case of a run that starts at the first poll
  (after at most 20 not-found polls two Active observations still end the wait with success);
  the last one reads \<open>notFoundRun\<close> as a statement about the polls.\<close>

theorem waitOrganizationCreated_notfound_bound:
  "(n \<le> 20 \<and> (\<forall>i<n. reportsNotFound conn oid i) \<and> observes conn oid n statusActive \<and>
      observes conn oid (Suc n) statusActive \<and> n + 2 \<le> pollsWithin ctx t \<longrightarrow>
        (\<exists>out. waitOrganizationCreated ctx conn oid t = (Some out, None, n + 2))) \<and>
   ((\<forall>i<21. reportsNotFound conn oid i) \<and> 21 \<le> pollsWithin ctx t \<longrightarrow>
        waitOrganizationCreated ctx conn oid t = (None, Some (NotFoundError None 21), 21)) \<and>
   (\<forall>out x r m. waitOrganizationCreated ctx conn oid t = (out, Some (NotFoundError x r), m) \<longrightarrow>
        r = 21 \<and> 21 \<le> m \<and> (\<forall>i. m - 21 \<le> i \<and> i < m \<longrightarrow> reportsNotFound conn oid i)) \<and>
   (\<forall>k<pollsWithin ctx t.
      undecided conn oid k \<and> reportsNotFound conn oid k \<and> 20 \<le> notFoundRun conn oid k \<longrightarrow>
        waitOrganizationCreated ctx conn oid t = (None, Some (NotFoundError None 21), Suc k)) \<and>
   (\<forall>k. Suc k < pollsWithin ctx t \<and> undecided conn oid k \<and> reportsNotFound conn oid k \<and>
        notFoundRun conn oid k < 20 \<longrightarrow>
        undecided conn oid (Suc k) \<and>
        Suc k < snd (snd (waitOrganizationCreated ctx conn oid t))) \<and>
   (undecided conn oid (pollsWithin ctx t) \<longrightarrow>
      (\<exists>lastState. waitOrganizationCreated ctx conn oid t =
         (None, Some (TimeoutError lastState t [statusActive]), pollsWithin ctx t))) \<and>
   (\<forall>r k. (r \<le> notFoundRun conn oid k) =
      (r \<le> k \<and> (\<forall>i. k - r \<le> i \<and> i < k \<longrightarrow> reportsNotFound conn oid i)))"
proof -
  have old: "(n \<le> 20 \<and> (\<forall>i<n. reportsNotFound conn oid i) \<and> observes conn oid n statusActive \<and>
      observes conn oid (Suc n) statusActive \<and> n + 2 \<le> pollsWithin ctx t \<longrightarrow>
        (\<exists>out. waitOrganizationCreated ctx conn oid t = (Some out, None, n + 2))) \<and>
   ((\<forall>i<21. reportsNotFound conn oid i) \<and> 21 \<le> pollsWithin ctx t \<longrightarrow>
        waitOrganizationCreated ctx conn oid t = (None, Some (NotFoundError None 21), 21)) \<and>
   (\<forall>out x r m. waitOrganizationCreated ctx conn oid t = (out, Some (NotFoundError x r), m) \<longrightarrow>
        r = 21 \<and> 21 \<le> m \<and> (\<forall>i. m - 21 \<le> i \<and> i < m \<longrightarrow> reportsNotFound conn oid i))"
    by (rule created_notfound_from_start)
  have exceeded:
    "waitOrganizationCreated ctx conn oid t = (None, Some (NotFoundError None 21), Suc k)"
    if k: "k < pollsWithin ctx t" and u: "undecided conn oid k"
      and nf: "reportsNotFound conn oid k" and run: "20 \<le> notFoundRun conn oid k" for k
  proof -
    from undecided_notFoundRun_le[OF u] run have r20: "notFoundRun conn oid k = 20" by simp
    define m where "m = pollsWithin ctx t - Suc k"
    have m: "pollsWithin ctx t - k = Suc m" using k unfolding m_def by arith
    from nf obtain e where e: "findOrganizationByID conn oid k = Inl e" "NotFound e"
      using reportsNotFound_Inl by blast
    from created_undecided_prefix[OF u, of ctx t] k obtain ls' where
      "refreshLoop (createdConf conn oid t) 0 0 [] 0 (pollsWithin ctx t) =
       refreshLoop (createdConf conn oid t) (notFoundRun conn oid k) (activeRun conn oid k)
         ls' k (pollsWithin ctx t - k)"
      by auto
    also have "\<dots> = (nil, Some (NotFoundError None 21), Suc k)"
      using e m r20 by (simp add: created_step)
    finally show ?thesis
      by (simp add: waitOrganizationCreated_def WaitForStateContext_created)
  qed
  have tolerated:
    "undecided conn oid (Suc k) \<and> Suc k < snd (snd (waitOrganizationCreated ctx conn oid t))"
    if k: "Suc k < pollsWithin ctx t" and u: "undecided conn oid k"
      and nf: "reportsNotFound conn oid k" and run: "notFoundRun conn oid k < 20" for k
  proof -
    have u': "undecided conn oid (Suc k)"
      using u not_endsWait_tolerated[OF nf run] by (simp add: undecided_Suc)
    define m where "m = pollsWithin ctx t - Suc (Suc k)"
    have m: "pollsWithin ctx t - Suc k = Suc m" using k unfolding m_def by arith
    obtain out err n' where
      w: "waitOrganizationCreated ctx conn oid t = (out, err, n')"
      by (cases "waitOrganizationCreated ctx conn oid t") auto
    from waitOrganizationCreated_loop[OF w] obtain raw where
      L: "refreshLoop (createdConf conn oid t) 0 0 [] 0 (pollsWithin ctx t) = (raw, err, n')"
      by blast
    from created_undecided_prefix[OF u', of ctx t] k obtain ls' where
      "refreshLoop (createdConf conn oid t) 0 0 [] 0 (pollsWithin ctx t) =
       refreshLoop (createdConf conn oid t) (notFoundRun conn oid (Suc k))
         (activeRun conn oid (Suc k)) ls' (Suc k) (pollsWithin ctx t - Suc k)"
      by auto
    with L m have "refreshLoop (createdConf conn oid t) (notFoundRun conn oid (Suc k))
         (activeRun conn oid (Suc k)) ls' (Suc k) (Suc m) = (raw, err, n')"
      by simp
    from loop_polls_gt[OF this] w u' show ?thesis by simp
  qed
  have timeout:
    "\<exists>lastState. waitOrganizationCreated ctx conn oid t =
       (None, Some (TimeoutError lastState t [statusActive]), pollsWithin ctx t)"
    if u: "undecided conn oid (pollsWithin ctx t)"
  proof -
    from created_undecided_prefix[OF u, of ctx t] obtain ls' where
      "refreshLoop (createdConf conn oid t) 0 0 [] 0 (pollsWithin ctx t) =
       refreshLoop (createdConf conn oid t) (notFoundRun conn oid (pollsWithin ctx t))
         (activeRun conn oid (pollsWithin ctx t)) ls' (pollsWithin ctx t) 0"
      by auto
    also have "\<dots> = (nil, Some (TimeoutError ls' t [statusActive]), pollsWithin ctx t)"
      by (simp add: createdConf_def)
    finally show ?thesis
      by (simp add: waitOrganizationCreated_def WaitForStateContext_created)
  qed
  note o1 = old[THEN conjunct1] and o2 = old[THEN conjunct2, THEN conjunct1]
    and o3 = old[THEN conjunct2, THEN conjunct2]
  have c4: "\<forall>k<pollsWithin ctx t.
      undecided conn oid k \<and> reportsNotFound conn oid k \<and> 20 \<le> notFoundRun conn oid k \<longrightarrow>
        waitOrganizationCreated ctx conn oid t = (None, Some (NotFoundError None 21), Suc k)"
    using exceeded by (intro allI impI) (elim conjE)
  have c5: "\<forall>k. Suc k < pollsWithin ctx t \<and> undecided conn oid k \<and> reportsNotFound conn oid k \<and>
        notFoundRun conn oid k < 20 \<longrightarrow>
        undecided conn oid (Suc k) \<and>
        Suc k < snd (snd (waitOrganizationCreated ctx conn oid t))"
    using tolerated by (intro allI impI) (elim conjE)
  have c6: "undecided conn oid (pollsWithin ctx t) \<longrightarrow>
      (\<exists>lastState. waitOrganizationCreated ctx conn oid t =
         (None, Some (TimeoutError lastState t [statusActive]), pollsWithin ctx t))"
    using timeout by (intro impI)
  have c7: "\<forall>r k. (r \<le> notFoundRun conn oid k) =
      (r \<le> k \<and> (\<forall>i. k - r \<le> i \<and> i < k \<longrightarrow> reportsNotFound conn oid i))"
    by (intro allI) (rule notFoundRun_ge_iff)
  show ?thesis
    by (intro conjI) (rule o1 o2 o3 c4 c5 c6 c7)+
qed

text \<open>The claim as stated fails: against a remote that always reports not-found the creation
  wait fails at the 21st poll with a NotFoundError, which is not a TimeoutError.\<close>

theorem waitOrganizationCreated_notfound_not_timeout_counterexample:
  "waitOrganizationCreated (pollsAllowed 30) goneClient ''m-1'' (10 * Minute) =
     (None, Some (NotFoundError None 21), 21) \<and>
   \<not> isTimeoutError (NotFoundError None 21)"
  by code_simp

text \<open>The theorem at two not-found polls followed by two Active observations, at a remote
  that always reports not-found, and at a remote that answers Creating once and reports
  not-found from then on: 20 not-found polls after the Creating observation are tolerated (a
  wait of 21 polls runs into its timeout), the 21st ends the wait at poll 22.\<close>

theorem waitOrganizationCreated_notfound_bound_witness:
  "(2::nat) \<le> 20 \<and> reportsNotFound lateClient ''m-1'' 0 \<and>
   reportsNotFound lateClient ''m-1'' 1 \<and>
   observes lateClient ''m-1'' 2 statusActive \<and> observes lateClient ''m-1'' (Suc 2) statusActive \<and>
   2 + 2 \<le> pollsWithin (pollsAllowed 10) (5 * Minute) \<and>
   waitOrganizationCreated (pollsAllowed 10) lateClient ''m-1'' (5 * Minute) =
     (Some (describedOrganization statusActive), None, 2 + 2) \<and>
   reportsNotFound goneClient ''m-1'' 0 \<and> reportsNotFound goneClient ''m-1'' 20 \<and>
   21 \<le> pollsWithin (pollsAllowed 30) (10 * Minute) \<and>
   waitOrganizationCreated (pollsAllowed 30) goneClient ''m-1'' (10 * Minute) =
     (None, Some (NotFoundError None 21), 21) \<and>
   observes creatingThenGoneClient ''m-1'' 0 statusCreating \<and>
   undecided creatingThenGoneClient ''m-1'' 21 \<and>
   reportsNotFound creatingThenGoneClient ''m-1'' 21 \<and>
   20 \<le> notFoundRun creatingThenGoneClient ''m-1'' 21 \<and>
   21 < pollsWithin (pollsAllowed 30) (10 * Minute) \<and>
   waitOrganizationCreated (pollsAllowed 30) creatingThenGoneClient ''m-1'' (10 * Minute) =
     (None, Some (NotFoundError None 21), Suc 21) \<and>
   undecided creatingThenGoneClient ''m-1'' 1 \<and>
   reportsNotFound creatingThenGoneClient ''m-1'' 1 \<and>
   notFoundRun creatingThenGoneClient ''m-1'' 1 < 20 \<and>
   undecided creatingThenGoneClient ''m-1'' (Suc 1) \<and>
   Suc 1 < snd (snd (waitOrganizationCreated (pollsAllowed 30) creatingThenGoneClient ''m-1''
                       (10 * Minute))) \<and>
   undecided creatingThenGoneClient ''m-1'' (pollsWithin (pollsAllowed 21) (10 * Minute)) \<and>
   waitOrganizationCreated (pollsAllowed 21) creatingThenGoneClient ''m-1'' (10 * Minute) =
     (None, Some (TimeoutError [] (10 * Minute) [statusActive]), 21)"
proof -
  note late_thm = waitOrganizationCreated_notfound_bound[where n = 2 and conn = lateClient
      and oid = "''m-1''" and ctx = "pollsAllowed 10" and t = "5 * Minute"]
  note gone_thm = waitOrganizationCreated_notfound_bound[where n = 0 and conn = goneClient
      and oid = "''m-1''" and ctx = "pollsAllowed 30" and t = "10 * Minute"]
  note mid_thm = waitOrganizationCreated_notfound_bound[where n = 0
      and conn = creatingThenGoneClient and oid = "''m-1''" and ctx = "pollsAllowed 30"
      and t = "10 * Minute"]
  note cut_thm = waitOrganizationCreated_notfound_bound[where n = 0
      and conn = creatingThenGoneClient and oid = "''m-1''" and ctx = "pollsAllowed 21"
      and t = "10 * Minute"]
  have late: "(2::nat) \<le> 20 \<and> (\<forall>i<2. reportsNotFound lateClient ''m-1'' i) \<and>
      observes lateClient ''m-1'' 2 statusActive \<and> observes lateClient ''m-1'' (Suc 2) statusActive \<and>
      2 + 2 \<le> pollsWithin (pollsAllowed 10) (5 * Minute)"
    using late_observations by (simp add: pollsAllowed_def less_2_cases_iff numeral_3_eq_3)
  have gone: "(\<forall>i<21. reportsNotFound goneClient ''m-1'' i) \<and>
      21 \<le> pollsWithin (pollsAllowed 30) (10 * Minute)"
    by (simp add: reportsNotFound_goneClient pollsAllowed_def)
  from late late_thm[THEN conjunct1]
  have "\<exists>out. waitOrganizationCreated (pollsAllowed 10) lateClient ''m-1'' (5 * Minute) =
          (Some out, None, 2 + 2)"
    by (rule rev_mp)
  then have r1: "waitOrganizationCreated (pollsAllowed 10) lateClient ''m-1'' (5 * Minute) =
      (Some (describedOrganization statusActive), None, 2 + 2)"
    using late_run by simp
  from gone gone_thm[THEN conjunct2, THEN conjunct1]
  have r2: "waitOrganizationCreated (pollsAllowed 30) goneClient ''m-1'' (10 * Minute) =
      (None, Some (NotFoundError None 21), 21)"
    by (rule rev_mp)
  have k21: "(21::nat) < pollsWithin (pollsAllowed 30) (10 * Minute)"
    by (simp add: pollsAllowed_def)
  have run21: "20 \<le> notFoundRun creatingThenGoneClient ''m-1'' 21"
    using creatingThenGone_history(3) by simp
  from mid_thm[THEN conjunct2, THEN conjunct2, THEN conjunct2, THEN conjunct1,
               rule_format, OF k21]
    creatingThenGone_history(1,2) run21
  have r3: "waitOrganizationCreated (pollsAllowed 30) creatingThenGoneClient ''m-1'' (10 * Minute) =
      (None, Some (NotFoundError None 21), Suc 21)"
    by simp
  have k1: "Suc 1 < pollsWithin (pollsAllowed 30) (10 * Minute)"
    by (simp add: pollsAllowed_def)
  have run1: "notFoundRun creatingThenGoneClient ''m-1'' 1 < 20"
    using creatingThenGone_history(6) by simp
  from mid_thm[THEN conjunct2, THEN conjunct2, THEN conjunct2, THEN conjunct2, THEN conjunct1,
               rule_format, of 1]
    k1 creatingThenGone_history(5,7) run1
  have r4: "undecided creatingThenGoneClient ''m-1'' (Suc 1) \<and>
      Suc 1 < snd (snd (waitOrganizationCreated (pollsAllowed 30) creatingThenGoneClient ''m-1''
                          (10 * Minute)))"
    by simp
  have u21: "undecided creatingThenGoneClient ''m-1'' (pollsWithin (pollsAllowed 21) (10 * Minute))"
    using creatingThenGone_history(1) by (simp add: pollsAllowed_def)
  from u21
    cut_thm[THEN conjunct2, THEN conjunct2, THEN conjunct2, THEN conjunct2, THEN conjunct2,
            THEN conjunct1]
  have "\<exists>lastState.
      waitOrganizationCreated (pollsAllowed 21) creatingThenGoneClient ''m-1'' (10 * Minute) =
        (None, Some (TimeoutError lastState (10 * Minute) [statusActive]),
         pollsWithin (pollsAllowed 21) (10 * Minute))"
    by (rule rev_mp)
  then have r5: "waitOrganizationCreated (pollsAllowed 21) creatingThenGoneClient ''m-1''
      (10 * Minute) = (None, Some (TimeoutError [] (10 * Minute) [statusActive]), 21)"
    using creatingThenGone_cut_run by simp
  from late gone r1 r2 late_observations reportsNotFound_goneClient
    creatingThenGone_history k21 run21 r3 run1 r4 u21 r5
  show ?thesis by simp
qed

subsection \<open>C6: Delete of an absent organization\<close>

text \<open>Claim C6. When DeleteOrganization answers with ResourceNotFoundException, Delete returns
  without adding a diagnostic (so without an error) and without any poll: it makes no
  DescribeOrganization call.\<close>

theorem Delete_not_found_is_success:
  assumes "\<not> HasError (GetDiags fw)"
    and "DeleteOrganization conn (ID state) = Some ResourceNotFoundException"
  shows "Delete r ctx conn fw state =
           \<lparr>Diagnostics = GetDiags fw, StateCall = NoStateCall, DescribeCalls = 0\<rparr> \<and>
         \<not> HasError (Diagnostics (Delete r ctx conn fw state))"
  using assms by (simp add: Delete_def)

text \<open>The theorem at a remote on which the organization is gone.\<close>

theorem Delete_not_found_is_success_witness:
  "DeleteOrganization goneClient (ID exampleState) = Some ResourceNotFoundException \<and>
   Delete newResourceOrganization (pollsAllowed 5) goneClient quietFramework exampleState =
     \<lparr>Diagnostics = [], StateCall = NoStateCall, DescribeCalls = 0\<rparr>"
  using Delete_not_found_is_success[where fw = quietFramework and conn = goneClient
          and state = exampleState and r = newResourceOrganization and ctx = "pollsAllowed 5"]
  by (simp add: quietFramework_def goneClient_def HasError_def)

subsection \<open>C7: Read of an absent organization\<close>

text \<open>Claim C7. When the finder reports not-found, Read appends a warning, calls
  RemoveResource on the state, and its diagnostics hold no error.\<close>

theorem Read_not_found_removes_resource:
  assumes "\<not> HasError (GetDiags fw)"
    and "findOrganizationByID conn (ToString (ID state)) 0 = Inl e"
    and "NotFound e"
  shows "Read r ctx conn fw state =
           \<lparr>Diagnostics = GetDiags fw @ [ResourceNotFoundWarningDiagnostic e],
            StateCall = RemoveResource, DescribeCalls = 1\<rparr> \<and>
         \<not> HasError (Diagnostics (Read r ctx conn fw state))"
  using assms by (simp add: Read_def HasError_append) (simp add: HasError_def)

text \<open>The theorem at a remote on which the organization is gone.\<close>

theorem Read_not_found_removes_resource_witness:
  "findOrganizationByID goneClient (ToString (ID exampleState)) 0 =
     Inl (NotFoundError (Some ResourceNotFoundException) 0) \<and>
   NotFound (NotFoundError (Some ResourceNotFoundException) 0) \<and>
   Read newResourceOrganization (pollsAllowed 5) goneClient quietFramework exampleState =
     \<lparr>Diagnostics =
        [ResourceNotFoundWarningDiagnostic (NotFoundError (Some ResourceNotFoundException) 0)],
      StateCall = RemoveResource, DescribeCalls = 1\<rparr>"
  using Read_not_found_removes_resource[where fw = quietFramework and conn = goneClient
          and state = exampleState and r = newResourceOrganization and ctx = "pollsAllowed 5"
          and e = "NotFoundError (Some ResourceNotFoundException) 0"]
  by (simp add: quietFramework_def goneClient_def HasError_def findOrganizationByID_def)

subsection \<open>C8: fetch errors during a wait\<close>

text \<open>Claim C8. When the finder fails at poll \<open>k\<close> with an error that is not a not-found
  condition, the round ends the loop at once, whatever the counters, with that error and after
  exactly \<open>k + 1\<close> refresh calls; so a creation or deletion wait that reaches poll \<open>k\<close>
  returns that error and makes no further call.\<close>

theorem fetch_error_aborts_wait:
  assumes "findOrganizationByID conn oid k = Inl e" and "\<not> NotFound e"
  shows "(\<forall>conf nf occ ls m. Refresh conf = statusOrganization conn oid \<longrightarrow>
            refreshLoop conf nf occ ls k (Suc m) = (nil, Some e, Suc k)) \<and>
         (\<forall>out err n. waitOrganizationCreated ctx conn oid t = (out, err, n) \<longrightarrow> k < n \<longrightarrow>
            out = None \<and> err = Some e \<and> n = Suc k) \<and>
         (\<forall>out err n. waitOrganizationDeleted ctx conn oid t = (out, err, n) \<longrightarrow> k < n \<longrightarrow>
            out = None \<and> err = Some e \<and> n = Suc k)"
proof (intro conjI allI impI)
  fix conf :: StateChangeConf and nf occ ls m
  assume "Refresh conf = statusOrganization conn oid"
  then have "refreshRound conf nf occ (Refresh conf k) = Return nil (Some e)"
    using assms by (simp add: statusOrganization_error round_error)
  then show "refreshLoop conf nf occ ls k (Suc m) = (nil, Some e, Suc k)"
    by (rule loop_Return)
next
  fix out err n
  assume w: "waitOrganizationCreated ctx conn oid t = (out, err, n)" and kn: "k < n"
  from waitOrganizationCreated_loop[OF w] obtain raw where
    L: "refreshLoop (createdConf conn oid t) 0 0 [] 0 (pollsWithin ctx t) = (raw, err, n)"
    and out: "out = (case raw of DescribeOrganizationOutputPtr d \<Rightarrow> Some d | _ \<Rightarrow> None)"
    by blast
  from loop_fatal[OF Refresh_createdConf assms L _ kn] out
  have "out = None \<and> err = Some e \<and> n = Suc k" by simp
  then show "out = None" "err = Some e" "n = Suc k" by simp_all
next
  fix out err n
  assume w: "waitOrganizationDeleted ctx conn oid t = (out, err, n)" and kn: "k < n"
  from waitOrganizationDeleted_loop[OF w] obtain raw where
    L: "refreshLoop (deletedConf' conn oid t) 0 0 [] 0 (pollsWithin ctx t) = (raw, err, n)"
    and out: "out = (case raw of OrganizationPtr d \<Rightarrow> Some d | _ \<Rightarrow> None)"
    by blast
  from loop_fatal[OF Refresh_deletedConf assms L _ kn] out
  have "out = None \<and> err = Some e \<and> n = Suc k" by simp
  then show "out = None" "err = Some e" "n = Suc k" by simp_all
qed

text \<open>The theorem at a remote that answers Creating and then fails with an operation error.\<close>

theorem fetch_error_aborts_wait_witness:
  "findOrganizationByID brokenClient ''m-1'' 1 = Inl (ClientError (OperationError ''throttled'')) \<and>
   \<not> NotFound (ClientError (OperationError ''throttled'')) \<and>
   waitOrganizationCreated (pollsAllowed 5) brokenClient ''m-1'' (5 * Minute) =
     (None, Some (ClientError (OperationError ''throttled'')), Suc 1)"
  using fetch_error_aborts_wait[OF broken_find, where ctx = "pollsAllowed 5" and t = "5 * Minute"]
    broken_find broken_run
  by simp

subsection \<open>C9: alias requires replacement\<close>

text \<open>Claim C9. The schema marks the required attribute \<open>alias\<close> with RequiresReplace, and a
  plan whose alias differs from the alias in the state is a replacement, never an update in
  place.\<close>

theorem alias_change_forces_replacement:
  "(\<exists>a. map_of Schema ''alias'' = Some (StringAttr a) \<and> Required a \<and>
        RequiresReplace \<in> set (PlanModifiers a)) \<and>
   (Alias state \<noteq> Alias plan \<longrightarrow> planAction Schema state plan = ResourceActionReplace)"
  by (simp add: Schema_def planAction_def changedAttributes_def attributeValue_def
                ARNAttributeComputedOnly_def IDAttribute_def)

text \<open>The theorem at a state whose alias is renamed.\<close>

theorem alias_change_forces_replacement_witness:
  "Alias exampleState \<noteq> Alias (exampleState\<lparr>Alias := Some ''renamed''\<rparr>) \<and>
   planAction Schema exampleState (exampleState\<lparr>Alias := Some ''renamed''\<rparr>) =
     ResourceActionReplace"
  using alias_change_forces_replacement[where state = exampleState
          and plan = "exampleState\<lparr>Alias := Some ''renamed''\<rparr>"]
  by (simp add: exampleState_def)

subsection \<open>C10: the output of the deletion wait\<close>

text \<open>Claim C10. waitOrganizationDeleted returns a nil organization for every outcome: the raw
  output of the wait is nil or a DescribeOrganizationOutput, never the type the waiter
  asserts.\<close>

theorem waitOrganizationDeleted_returns_nil:
  "fst (waitOrganizationDeleted ctx conn oid t) = None"
proof -
  obtain raw err n where
    L: "refreshLoop (deletedConf' conn oid t) 0 0 [] 0 (pollsWithin ctx t) = (raw, err, n)"
    by (cases "refreshLoop (deletedConf' conn oid t) 0 0 [] 0 (pollsWithin ctx t)") auto
  have "raw \<noteq> OrganizationPtr x" for x
    using loop_shape[OF Refresh_deletedConf, of conn oid t 0 0 "[]" 0 "pollsWithin ctx t" x] L
    by simp
  then show ?thesis
    using L by (simp add: waitOrganizationDeleted_def WaitForStateContext_deleted
                     split: any_value.splits)
qed

text \<open>The theorem at the observations Active, Deleting, Deleted.\<close>

theorem waitOrganizationDeleted_returns_nil_witness:
  "fst (waitOrganizationDeleted (pollsAllowed 5) deletingClient ''m-1'' (10 * Minute)) = None"
  using waitOrganizationDeleted_returns_nil[where ctx = "pollsAllowed 5" and conn = deletingClient]
  by simp

end
